theory Spec2Isabelle
  imports Complex_Main
begin

section \<open>Channel names (internal/websocket/channel)\<close>

text \<open>
  The three sentinel errors of package \<open>channel\<close>, the constant \<open>PrefixUser\<close>, the
  table \<open>ValidUserChannels\<close> and the struct \<open>ChannelInfo\<close>. Go strings are byte
  sequences; \<open>string\<close> is a list of bytes.
\<close>

datatype channel_error = ErrInvalidChannelFormat | ErrUnknownChannelType | ErrInvalidCFXUserID

definition PrefixUser :: string where
  "PrefixUser = ''user:''"

definition ValidUserChannels :: "string \<Rightarrow> bool" where
  "ValidUserChannels s = (s = ''margin'' \<or> s = ''position'')"

record ChannelInfo =
  Name :: string
  Prefix :: string
  UserID :: string
  AjaibID :: string
  ChannelSub :: string

text \<open>\<open>strings.HasPrefix\<close>, \<open>strings.TrimPrefix\<close> and \<open>strings.Split\<close> with a one-byte
  separator. \<open>Split\<close> of a string without the separator is the singleton of that string,
  also for the empty string.\<close>

definition HasPrefix :: "string \<Rightarrow> string \<Rightarrow> bool" where
  "HasPrefix s p = (take (length p) s = p)"

definition TrimPrefix :: "string \<Rightarrow> string \<Rightarrow> string" where
  "TrimPrefix s p = (if HasPrefix s p then drop (length p) s else s)"

fun Split :: "string \<Rightarrow> char \<Rightarrow> string list" where
  "Split [] sep = [[]]"
| "Split (c # cs) sep =
     (if c = sep then [] # Split cs sep
      else (case Split cs sep of [] \<Rightarrow> [[c]] | p # ps \<Rightarrow> (c # p) # ps))"

text \<open>The pattern \<open>^[0-9]{1,10}$\<close>: one to ten bytes, each an ASCII digit (in Go's syntax
  \<open>$\<close> without the multi-line flag matches at the end of the text only).\<close>

definition isDigit :: "char \<Rightarrow> bool" where
  "isDigit c = (c \<in> set ''0123456789'')"

definition isValidAjaibID :: "string \<Rightarrow> bool" where
  "isValidAjaibID userID = (1 \<le> length userID \<and> length userID \<le> 10 \<and> list_all isDigit userID)"

definition ParseChannel :: "string \<Rightarrow> channel_error + ChannelInfo" where
  "ParseChannel channel =
     (if \<not> HasPrefix channel PrefixUser then Inl ErrUnknownChannelType
      else
        let parts = Split (TrimPrefix channel PrefixUser) (CHR '':'') in
        if length parts \<noteq> 2 then Inl ErrInvalidChannelFormat
        else
          let ajaibID = parts ! 0; channelSub = parts ! 1 in
          if ajaibID = [] then Inl ErrInvalidChannelFormat
          else if channelSub = [] then Inl ErrInvalidChannelFormat
          else if \<not> isValidAjaibID ajaibID then Inl ErrInvalidCFXUserID
          else if \<not> ValidUserChannels channelSub then Inl ErrUnknownChannelType
          else Inr \<lparr>Name = channel, Prefix = PrefixUser, UserID = [],
                    AjaibID = ajaibID, ChannelSub = channelSub\<rparr>)"

section \<open>Protocol messages (internal/websocket/protocol)\<close>

definition TypeSubscribe :: string where "TypeSubscribe = ''subscribe''"
definition TypeUnsubscribe :: string where "TypeUnsubscribe = ''unsubscribe''"
definition TypePing :: string where "TypePing = ''ping''"
definition TypeSubscribed :: string where "TypeSubscribed = ''subscribed''"
definition TypeUnsubscribed :: string where "TypeUnsubscribed = ''unsubscribed''"
definition TypePong :: string where "TypePong = ''pong''"
definition TypePublication :: string where "TypePublication = ''publication''"
definition TypeError :: string where "TypeError = ''error''"

definition CodeBadRequest :: int where "CodeBadRequest = 4000"
definition CodeChannelNotFound :: int where "CodeChannelNotFound = 4001"
definition CodeAlreadySubscribed :: int where "CodeAlreadySubscribed = 4002"
definition CodeNotSubscribed :: int where "CodeNotSubscribed = 4003"

text \<open>The struct \<open>Message\<close>. \<open>Data\<close> is a \<open>json.RawMessage\<close>: raw bytes, empty when
  the field is absent.\<close>

record Message =
  ID :: string
  Type :: string
  Channel :: string
  Data :: string
  Success :: bool
  Code :: int
  Message :: string
  Timestamp :: int

text \<open>The constructors read the clock (\<open>time.Now().UnixMilli()\<close>); the reading is the
  argument \<open>now\<close>.\<close>

definition NewSubscribedMessage :: "string \<Rightarrow> string \<Rightarrow> int \<Rightarrow> Message" where
  "NewSubscribedMessage requestID channel now =
     \<lparr>ID = requestID, Type = TypeSubscribed, Channel = channel, Data = [], Success = True,
      Code = 0, Message = [], Timestamp = now\<rparr>"

definition NewUnsubscribedMessage :: "string \<Rightarrow> string \<Rightarrow> int \<Rightarrow> Message" where
  "NewUnsubscribedMessage requestID channel now =
     \<lparr>ID = requestID, Type = TypeUnsubscribed, Channel = channel, Data = [], Success = True,
      Code = 0, Message = [], Timestamp = now\<rparr>"

definition NewPublicationMessage :: "string \<Rightarrow> string \<Rightarrow> int \<Rightarrow> Message" where
  "NewPublicationMessage channel data now =
     \<lparr>ID = [], Type = TypePublication, Channel = channel, Data = data, Success = False,
      Code = 0, Message = [], Timestamp = now\<rparr>"

definition NewErrorMessage :: "string \<Rightarrow> int \<Rightarrow> string \<Rightarrow> int \<Rightarrow> Message" where
  "NewErrorMessage requestID code message now =
     \<lparr>ID = requestID, Type = TypeError, Channel = [], Data = [], Success = False,
      Code = code, Message = message, Timestamp = now\<rparr>"

text \<open>
  \<open>Message.Encode\<close> is \<open>json.Marshal\<close>. The JSON text of a message is represented by the
  message itself (a \<open>frame\<close>). Marshalling fails only on a \<open>Data\<close> field that is present
  and is not valid JSON; the JSON validity check of the library is the parameter
  \<open>validJSON\<close>.
\<close>

type_synonym frame = Message

definition Encode :: "(string \<Rightarrow> bool) \<Rightarrow> Message \<Rightarrow> frame option" where
  "Encode validJSON m = (if Data m = [] \<or> validJSON (Data m) then Some m else None)"

section \<open>Clients and the Hub (internal/websocket/server)\<close>

text \<open>
  A Go channel of frames with a buffer: the frames queued, the capacity and whether the
  channel has been closed. Closing a closed channel and sending on a closed channel
  panic. \<open>chan_try_send\<close> is the statement
  \<^verbatim>\<open>select { case ch <- data: ... default: ... }\<close>: it never blocks, and reports whether
  the frame was queued.
\<close>

datatype panic = CloseOfClosedChannel | SendOnClosedChannel

record chan =
  buf :: "frame list"
  cap :: nat
  is_closed :: bool

definition make_chan :: "nat \<Rightarrow> chan" where
  "make_chan n = \<lparr>buf = [], cap = n, is_closed = False\<rparr>"

definition chan_close :: "chan \<Rightarrow> panic + chan" where
  "chan_close ch = (if is_closed ch then Inl CloseOfClosedChannel else Inr (ch\<lparr>is_closed := True\<rparr>))"

definition chan_try_send :: "chan \<Rightarrow> frame \<Rightarrow> panic + (chan \<times> bool)" where
  "chan_try_send ch data =
     (if is_closed ch then Inl SendOnClosedChannel
      else if length (buf ch) < cap ch then Inr (ch\<lparr>buf := buf ch @ [data]\<rparr>, True)
      else Inr (ch, False))"

datatype server_error = ErrClientBufferFull | ErrEncode

text \<open>
  A \<open>time.Duration\<close> is a signed 64-bit count of nanoseconds. \<open>ClientConfig\<close> and its
  default.
\<close>

definition Millisecond :: int where "Millisecond = 1000000"
definition Second :: int where "Second = 1000000000"

record ClientConfig =
  PingInterval :: int
  PingTimeout :: int
  WriteWait :: int
  ReadLimit :: int
  SendBuffer :: nat

definition DefaultClientConfig :: ClientConfig where
  "DefaultClientConfig =
     \<lparr>PingInterval = 2 * Second, PingTimeout = 30 * Second, WriteWait = 10 * Second,
      ReadLimit = 512 * 1024, SendBuffer = 256\<rparr>"

text \<open>
  The struct \<open>Client\<close>, without the socket and the logger. The maps
  \<open>map[string]bool\<close> and \<open>map[*Client]bool\<close> only ever store \<open>true\<close> and are read through
  their key sets, so they are sets. A \<open>*Client\<close> is an address (\<open>ref\<close>); the clients
  live in a store, since the Hub and the handler mutate the client they point to.
\<close>

type_synonym ref = nat

record Client =
  id' :: string
  ajaibID :: string
  cfxUserID :: string
  send :: chan
  subscriptions :: "string set"
  pingInterval :: int
  pingTimeout :: int
  writeWait :: int
  readLimit :: int

record Hub =
  clients :: "ref set"
  userConnections :: "string \<rightharpoonup> int"
  channels :: "string \<rightharpoonup> ref set"
  maxConnectionsPerUser :: int

record hub_state =
  hub :: Hub
  heap :: "ref \<Rightarrow> Client"

text \<open>\<open>NewClient\<close>; the configuration is \<open>None\<close> for a nil pointer, and \<open>uuid\<close> is the
  identifier \<open>uuid.New\<close> draws.\<close>

definition NewClient :: "ClientConfig option \<Rightarrow> string \<Rightarrow> string \<Rightarrow> string \<Rightarrow> Client" where
  "NewClient config uuid ajaibID' cfxUserID' =
     (let config' = (case config of None \<Rightarrow> DefaultClientConfig | Some c \<Rightarrow> c) in
      \<lparr>id' = uuid, ajaibID = ajaibID', cfxUserID = cfxUserID',
       send = make_chan (SendBuffer config'), subscriptions = {},
       pingInterval = PingInterval config', pingTimeout = PingTimeout config',
       writeWait = WriteWait config', readLimit = ReadLimit config'\<rparr>)"

definition NewHub :: "int \<Rightarrow> Hub" where
  "NewHub maxConnectionsPerUser' =
     \<lparr>clients = {}, userConnections = Map.empty, channels = Map.empty,
      maxConnectionsPerUser = maxConnectionsPerUser'\<rparr>"

definition registerClient :: "'a hub_state_scheme \<Rightarrow> ref \<Rightarrow> 'a hub_state_scheme" where
  "registerClient st client =
     (let h = hub st; ajaibID' = ajaibID (heap st client) in
      if ajaibID' \<noteq> [] \<and> maxConnectionsPerUser h > 0 then
        (let currentCount = (case userConnections h ajaibID' of None \<Rightarrow> 0 | Some n \<Rightarrow> n) in
         if currentCount \<ge> maxConnectionsPerUser h then st
         else st\<lparr>hub := h\<lparr>userConnections := (userConnections h)(ajaibID' \<mapsto> currentCount + 1),
                            clients := insert client (clients h)\<rparr>\<rparr>)
      else st\<lparr>hub := h\<lparr>clients := insert client (clients h)\<rparr>\<rparr>)"

text \<open>
  \<open>unregisterClient\<close>. The loop over \<open>client.subscriptions\<close> visits each subscribed
  channel once and touches only that channel's entry, so its result is given entry by
  entry: \<open>delete\<close> on the subscriber set (a no-op on a missing entry, whose set is the
  nil map), then the entry is deleted when nothing is left. The last statement closes
  the queue, and panics when it is closed already.
\<close>

definition unregisterClient :: "'a hub_state_scheme \<Rightarrow> ref \<Rightarrow> panic + 'a hub_state_scheme" where
  "unregisterClient st client =
     (let h = hub st; c = heap st client;
          clients1 = clients h - {client};
          ajaibID' = ajaibID c;
          userConnections1 =
            (if ajaibID' \<noteq> [] then
               (case userConnections h ajaibID' of
                  None \<Rightarrow> userConnections h
                | Some currentCount \<Rightarrow>
                    (let uc = (if currentCount > 0
                               then (userConnections h)(ajaibID' \<mapsto> currentCount - 1)
                               else userConnections h)
                     in if uc ajaibID' = Some 0 then uc(ajaibID' := None) else uc))
             else userConnections h);
          channels1 =
            (\<lambda>channel.
               if channel \<in> subscriptions c then
                 (case channels h channel of
                    None \<Rightarrow> None
                  | Some cs \<Rightarrow> if cs - {client} = {} then None else Some (cs - {client}))
               else channels h channel)
      in case chan_close (send c) of
           Inl p \<Rightarrow> Inl p
         | Inr ch \<Rightarrow>
             Inr (st\<lparr>hub := h\<lparr>clients := clients1, userConnections := userConnections1,
                               channels := channels1\<rparr>,
                      heap := (heap st)(client := c\<lparr>send := ch\<rparr>)\<rparr>))"

definition SubscribeClient :: "'a hub_state_scheme \<Rightarrow> ref \<Rightarrow> string \<Rightarrow> 'a hub_state_scheme" where
  "SubscribeClient st client channel =
     (let h = hub st; c = heap st client;
          cs = (case channels h channel of None \<Rightarrow> {} | Some cs \<Rightarrow> cs)
      in st\<lparr>hub := h\<lparr>channels := (channels h)(channel \<mapsto> insert client cs)\<rparr>,
             heap := (heap st)(client := c\<lparr>subscriptions := insert channel (subscriptions c)\<rparr>)\<rparr>)"

text \<open>\<open>UnsubscribeClient\<close>: two \<open>delete\<close> statements and nothing else. \<open>delete\<close> on the
  nil map of a missing entry is a no-op.\<close>

definition UnsubscribeClient :: "'a hub_state_scheme \<Rightarrow> ref \<Rightarrow> string \<Rightarrow> 'a hub_state_scheme" where
  "UnsubscribeClient st client channel =
     (let h = hub st; c = heap st client;
          channels1 = (case channels h channel of
                         None \<Rightarrow> channels h
                       | Some cs \<Rightarrow> (channels h)(channel \<mapsto> cs - {client}))
      in st\<lparr>hub := h\<lparr>channels := channels1\<rparr>,
             heap := (heap st)(client := c\<lparr>subscriptions := subscriptions c - {channel}\<rparr>)\<rparr>)"

definition GetUserConnectionCount :: "'a hub_state_scheme \<Rightarrow> string \<Rightarrow> int" where
  "GetUserConnectionCount st ajaibID' =
     (case userConnections (hub st) ajaibID' of None \<Rightarrow> 0 | Some n \<Rightarrow> n)"

definition CanUserConnect :: "'a hub_state_scheme \<Rightarrow> string \<Rightarrow> bool" where
  "CanUserConnect st ajaibID' =
     (if ajaibID' = [] \<or> maxConnectionsPerUser (hub st) \<le> 0 then True
      else GetUserConnectionCount st ajaibID' < maxConnectionsPerUser (hub st))"

text \<open>Modelled from the spec: \<open>Hub.IsClientSubscribed\<close>, which the handler calls and whose
  body is not among the sources. The spec rejects a subscribe "if already in the
  Session's subscription set" and an unsubscribe "if absent".\<close>

definition IsClientSubscribed :: "'a hub_state_scheme \<Rightarrow> ref \<Rightarrow> string \<Rightarrow> bool" where
  "IsClientSubscribed st client channel = (channel \<in> subscriptions (heap st client))"

text \<open>\<open>Client.Send\<close> and \<open>Client.SendMessage\<close>, on the client at address \<open>client\<close>.\<close>

definition Send :: "'a hub_state_scheme \<Rightarrow> ref \<Rightarrow> frame \<Rightarrow> panic + ('a hub_state_scheme \<times> server_error option)" where
  "Send st client data =
     (let c = heap st client in
      case chan_try_send (send c) data of
        Inl p \<Rightarrow> Inl p
      | Inr (ch, True) \<Rightarrow> Inr (st\<lparr>heap := (heap st)(client := c\<lparr>send := ch\<rparr>)\<rparr>, None)
      | Inr (ch, False) \<Rightarrow> Inr (st, Some ErrClientBufferFull))"

definition SendMessage :: "(string \<Rightarrow> bool) \<Rightarrow> 'a hub_state_scheme \<Rightarrow> ref \<Rightarrow> Message \<Rightarrow> panic + ('a hub_state_scheme \<times> server_error option)" where
  "SendMessage validJSON st client msg =
     (case Encode validJSON msg of
        None \<Rightarrow> Inr (st, Some ErrEncode)
      | Some data \<Rightarrow> Send st client data)"

text \<open>
  \<open>broadcastToChannel\<close>. \<open>clientList\<close> is the copy of the subscriber set that the
  \<open>range\<close> loop builds: the subscribers of the channel, each once, in the order the
  runtime happens to visit them. \<open>send_each\<close> is the second loop.
\<close>

record ChannelMessage =
  cm_Channel :: string
  cm_Data :: string

fun send_each :: "ref list \<Rightarrow> frame \<Rightarrow> (ref \<Rightarrow> Client) \<Rightarrow> panic + (ref \<Rightarrow> Client)" where
  "send_each [] data hp = Inr hp"
| "send_each (client # rest) data hp =
     (case chan_try_send (send (hp client)) data of
        Inl p \<Rightarrow> Inl p
      | Inr (ch, sent) \<Rightarrow> send_each rest data (hp(client := (hp client)\<lparr>send := ch\<rparr>)))"

definition broadcastToChannel :: "(string \<Rightarrow> bool) \<Rightarrow> int \<Rightarrow> ref list \<Rightarrow> 'a hub_state_scheme \<Rightarrow> ChannelMessage \<Rightarrow> panic + 'a hub_state_scheme" where
  "broadcastToChannel validJSON now clientList st message =
     (case channels (hub st) (cm_Channel message) of
        None \<Rightarrow> Inr st
      | Some cs \<Rightarrow>
          (case Encode validJSON (NewPublicationMessage (cm_Channel message) (cm_Data message) now) of
             None \<Rightarrow> Inr st
           | Some data \<Rightarrow>
               (case send_each clientList data (heap st) of
                  Inl p \<Rightarrow> Inl p
                | Inr hp \<Rightarrow> Inr (st\<lparr>heap := hp\<rparr>))))"

section \<open>The subscription tracker (internal/kafka, Broadcaster)\<close>

text \<open>The map \<open>activeUsers\<close> from the internal identifier (\<open>cfx_user_id\<close>) to the public
  one (\<open>ajaib_id\<close>). Reading a missing key of a Go map gives the empty string.\<close>

record Broadcaster =
  activeUsers :: "string \<rightharpoonup> string"

definition NewBroadcaster :: Broadcaster where
  "NewBroadcaster = \<lparr>activeUsers = Map.empty\<rparr>"

definition RegisterSubscription :: "Broadcaster \<Rightarrow> string \<Rightarrow> string \<Rightarrow> Broadcaster" where
  "RegisterSubscription b cfxUserID' ajaibID' =
     b\<lparr>activeUsers := (activeUsers b)(cfxUserID' \<mapsto> ajaibID')\<rparr>"

definition UnregisterSubscription :: "Broadcaster \<Rightarrow> string \<Rightarrow> Broadcaster" where
  "UnregisterSubscription b cfxUserID' = b\<lparr>activeUsers := (activeUsers b)(cfxUserID' := None)\<rparr>"

definition getAjaibID :: "Broadcaster \<Rightarrow> string \<Rightarrow> string" where
  "getAjaibID b cfxUserID' = (case activeUsers b cfxUserID' of None \<Rightarrow> [] | Some a \<Rightarrow> a)"

section \<open>The message handler (internal/websocket/handler)\<close>

text \<open>The handler works on the Hub, the clients and the tracker it was given
  (\<open>kafkaBroadcaster\<close>, \<open>None\<close> for the nil interface).\<close>

record handler_state = hub_state +
  kafkaBroadcaster :: "Broadcaster option"

definition Error :: "channel_error \<Rightarrow> string" where
  "Error err =
     (case err of
        ErrInvalidChannelFormat \<Rightarrow> ''invalid channel format''
      | ErrUnknownChannelType \<Rightarrow> ''unknown channel type''
      | ErrInvalidCFXUserID \<Rightarrow> ''invalid cfx_user_id format'')"

definition handleSubscribe :: "(string \<Rightarrow> bool) \<Rightarrow> int \<Rightarrow> handler_state \<Rightarrow> ref \<Rightarrow> Message \<Rightarrow> panic + (handler_state \<times> server_error option)" where
  "handleSubscribe validJSON now st client msg =
     (let channelName = Channel msg; c = heap st client in
      if channelName = [] then
        SendMessage validJSON st client (NewErrorMessage (ID msg) CodeBadRequest ''channel required'' now)
      else if IsClientSubscribed st client channelName then
        SendMessage validJSON st client
          (NewErrorMessage (ID msg) CodeAlreadySubscribed ''already subscribed to channel'' now)
      else
        (case ParseChannel channelName of
           Inl err \<Rightarrow>
             (let code = (if err = ErrInvalidChannelFormat \<or> err = ErrInvalidCFXUserID
                          then CodeChannelNotFound else CodeBadRequest)
              in SendMessage validJSON st client (NewErrorMessage (ID msg) code (Error err) now))
         | Inr channelInfo \<Rightarrow>
             if ajaibID c \<noteq> [] \<and> ajaibID c \<noteq> AjaibID channelInfo then
               SendMessage validJSON st client
                 (NewErrorMessage (ID msg) CodeChannelNotFound ''channel not found'' now)
             else
               (let st1 = (case kafkaBroadcaster st of
                             Some b \<Rightarrow>
                               if cfxUserID c \<noteq> [] then
                                 st\<lparr>kafkaBroadcaster :=
                                      Some (RegisterSubscription b (cfxUserID c) (ajaibID c))\<rparr>
                               else st
                           | None \<Rightarrow> st);
                    st2 = SubscribeClient st1 client channelName
                in SendMessage validJSON st2 client (NewSubscribedMessage (ID msg) channelName now))))"

definition handleUnsubscribe :: "(string \<Rightarrow> bool) \<Rightarrow> int \<Rightarrow> handler_state \<Rightarrow> ref \<Rightarrow> Message \<Rightarrow> panic + (handler_state \<times> server_error option)" where
  "handleUnsubscribe validJSON now st client msg =
     (let channelName = Channel msg; c = heap st client in
      if channelName = [] then
        SendMessage validJSON st client (NewErrorMessage (ID msg) CodeBadRequest ''channel required'' now)
      else if \<not> IsClientSubscribed st client channelName then
        SendMessage validJSON st client
          (NewErrorMessage (ID msg) CodeNotSubscribed ''not subscribed to channel'' now)
      else
        (let st1 = UnsubscribeClient st client channelName;
             st2 = (case kafkaBroadcaster st1 of
                      Some b \<Rightarrow>
                        if cfxUserID c \<noteq> [] then
                          st1\<lparr>kafkaBroadcaster := Some (UnregisterSubscription b (cfxUserID c))\<rparr>
                        else st1
                    | None \<Rightarrow> st1)
         in SendMessage validJSON st2 client (NewUnsubscribedMessage (ID msg) channelName now)))"

section \<open>Start-up (cmd, config, NewServer, NewKafkaReaderConsumer)\<close>

text \<open>
  The configuration structs, with the fields start-up reads. The conversion of a number
  of milliseconds to a \<open>time.Duration\<close> is a 64-bit multiplication that wraps.
\<close>

record KafkaConfiguration =
  Brokers :: "string list"
  Topics :: "string list"
  ConsumerGroup :: string
  InitialOffset :: string
  SessionTimeout :: int
  HeartbeatInterval :: int

record WebSocketServerConfiguration =
  Enabled :: bool
  Port :: int
  PingIntervalMs :: int
  PingTimeoutMs :: int
  MaxConnectionsPerUser :: int
  ReadBufferSize :: int
  WriteBufferSize :: int
  ShutdownTimeoutMs :: int

record Configuration =
  Kafka :: KafkaConfiguration
  WebSocketServer :: WebSocketServerConfiguration

definition wrap64 :: "int \<Rightarrow> int" where
  "wrap64 x = (x + 2 ^ 63) mod 2 ^ 64 - 2 ^ 63"

record Server =
  srv_hub :: Hub
  srv_config :: WebSocketServerConfiguration
  srv_readBufferSize :: int
  srv_writeBufferSize :: int
  srv_clientConfig :: ClientConfig

definition NewServer :: "WebSocketServerConfiguration \<Rightarrow> Server" where
  "NewServer cfg =
     (let hub' = NewHub (MaxConnectionsPerUser cfg);
          clientConfig = \<lparr>PingInterval = wrap64 (PingIntervalMs cfg * Millisecond),
                          PingTimeout = wrap64 (PingTimeoutMs cfg * Millisecond),
                          WriteWait = 10 * Second,
                          ReadLimit = 512 * 1024,
                          SendBuffer = 256\<rparr>;
          readBufferSize = (if ReadBufferSize cfg = 0 then 1024 else ReadBufferSize cfg);
          writeBufferSize = (if WriteBufferSize cfg = 0 then 1024 else WriteBufferSize cfg)
      in \<lparr>srv_hub = hub', srv_config = cfg, srv_readBufferSize = readBufferSize,
          srv_writeBufferSize = writeBufferSize, srv_clientConfig = clientConfig\<rparr>)"

text \<open>The client that \<open>handleWebSocket\<close> constructs for an upgraded connection: it gets
  the server's client configuration.\<close>

definition handleWebSocket_client :: "Server \<Rightarrow> string \<Rightarrow> string \<Rightarrow> string \<Rightarrow> Client" where
  "handleWebSocket_client s uuid ajaibID' cfxUserID' =
     NewClient (Some (srv_clientConfig s)) uuid ajaibID' cfxUserID'"

text \<open>\<open>initWebSocketServer\<close> returns the server and an error that is always nil.\<close>

datatype startup_error = BrokersEmpty | GroupIDEmpty | TopicsEmpty

definition initWebSocketServer :: "Configuration \<Rightarrow> Server \<times> startup_error option" where
  "initWebSocketServer cfg = (NewServer (WebSocketServer cfg), None)"

text \<open>
  The Kafka consumer. \<open>ConsumerConfig\<close> is the struct \<open>initKafkaConsumer\<close> fills (the
  fields it leaves out are zero; the handler is never nil there), \<open>ReaderConfig\<close> is
  what \<open>NewKafkaReaderConsumer\<close> hands to the library. The two start offsets are
  constants of the library. The library's \<open>kafka.NewReader\<close> is not among the sources:
  it is the parameter \<open>newReader\<close>, which gives the reader or \<open>None\<close> when the call does
  not return one (it has no error result; it panics).
\<close>

record ConsumerConfig =
  cc_Brokers :: "string list"
  cc_GroupID :: string
  cc_Topics :: "string list"
  cc_InitialOffset :: string
  cc_SessionTimeout :: int
  cc_HeartbeatInterval :: int
  cc_MaxProcessingTime :: int
  cc_RebalanceTimeout :: int
  cc_FetchMin :: int
  cc_FetchMax :: int

datatype start_offset = FirstOffset | LastOffset

record ReaderConfig =
  rc_Brokers :: "string list"
  rc_GroupID :: string
  rc_GroupTopics :: "string list"
  rc_StartOffset :: start_offset
  rc_SessionTimeout :: int
  rc_HeartbeatInterval :: int
  rc_MaxWait :: int
  rc_RebalanceTimeout :: int
  rc_MinBytes :: int
  rc_MaxBytes :: int
  rc_ReadBackoffMin :: int
  rc_ReadBackoffMax :: int
  rc_CommitInterval :: int

definition getInitialOffset :: "string \<Rightarrow> start_offset" where
  "getInitialOffset offset =
     (if offset = ''earliest'' then FirstOffset
      else if offset = ''latest'' then LastOffset
      else LastOffset)"

datatype 'r consumer_result = ConsumerError startup_error | ReaderPanic | Consumer 'r

definition NewKafkaReaderConsumer :: "(ReaderConfig \<Rightarrow> 'r option) \<Rightarrow> ConsumerConfig \<Rightarrow> 'r consumer_result" where
  "NewKafkaReaderConsumer newReader config =
     (if length (cc_Brokers config) = 0 then ConsumerError BrokersEmpty
      else if cc_GroupID config = [] then ConsumerError GroupIDEmpty
      else if length (cc_Topics config) = 0 then ConsumerError TopicsEmpty
      else
        (let initialOffset = (if cc_InitialOffset config = [] then ''latest''
                              else cc_InitialOffset config);
             startOffset = getInitialOffset initialOffset;
             readerConfig =
               \<lparr>rc_Brokers = cc_Brokers config,
                rc_GroupID = cc_GroupID config,
                rc_GroupTopics = cc_Topics config,
                rc_StartOffset = startOffset,
                rc_SessionTimeout = cc_SessionTimeout config,
                rc_HeartbeatInterval = cc_HeartbeatInterval config,
                rc_MaxWait = cc_MaxProcessingTime config,
                rc_RebalanceTimeout = cc_RebalanceTimeout config,
                rc_MinBytes = cc_FetchMin config,
                rc_MaxBytes = cc_FetchMax config,
                rc_ReadBackoffMin = 100 * Millisecond,
                rc_ReadBackoffMax = 5 * Second,
                rc_CommitInterval = Second\<rparr>
         in case newReader readerConfig of
              None \<Rightarrow> ReaderPanic
            | Some reader \<Rightarrow> Consumer reader))"

definition initKafkaConsumer :: "(ReaderConfig \<Rightarrow> 'r option) \<Rightarrow> Configuration \<Rightarrow> 'r consumer_result" where
  "initKafkaConsumer newReader cfg =
     (let kafkaConfig =
            \<lparr>cc_Brokers = Brokers (Kafka cfg),
             cc_GroupID = ConsumerGroup (Kafka cfg),
             cc_Topics = Topics (Kafka cfg),
             cc_InitialOffset = InitialOffset (Kafka cfg),
             cc_SessionTimeout = wrap64 (SessionTimeout (Kafka cfg) * Millisecond),
             cc_HeartbeatInterval = wrap64 (HeartbeatInterval (Kafka cfg) * Millisecond),
             cc_MaxProcessingTime = 0,
             cc_RebalanceTimeout = 0,
             cc_FetchMin = 0,
             cc_FetchMax = 0\<rparr>
      in NewKafkaReaderConsumer newReader kafkaConfig)"

text \<open>\<open>main\<close>, from the decoded configuration to the point where the service runs: it
  exits with status 1 when one of the two initialisers returns an error, and otherwise
  runs the server it built. A panic of the library ends the program too.\<close>

datatype startup = Exit int | Panicked | Running Server

definition main_startup :: "(ReaderConfig \<Rightarrow> 'r option) \<Rightarrow> Configuration \<Rightarrow> startup" where
  "main_startup newReader cfg =
     (case initWebSocketServer cfg of
        (wsServer, Some err) \<Rightarrow> Exit 1
      | (wsServer, None) \<Rightarrow>
          (case initKafkaConsumer newReader cfg of
             ConsumerError err \<Rightarrow> Exit 1
           | ReaderPanic \<Rightarrow> Panicked
           | Consumer kafkaConsumer \<Rightarrow> Running wsServer))"

section \<open>The rate provider and the rate cache (internal/service)\<close>

text \<open>
  An exchange rate is a \<open>float64\<close> that is only compared with zero here, never computed
  with; it is a value of a linear order with a zero (decoding JSON never yields a NaN).
  What the HTTP exchange with the rate endpoint produced is the provider's input: the
  request could not be built, the transport failed, or a response came with a status
  code and a body that decodes or does not.
\<close>

record 'f priceRateDto =
  BaseCurrency :: string
  QuoteCurrency :: string
  Amount :: 'f

record 'f baseResponse =
  Result :: "'f priceRateDto"

datatype 'f http_exchange =
    RequestNotCreated
  | TransportFailed
  | Response int "'f baseResponse option"

datatype 'f provider_error =
    ErrCreateRequest
  | ErrFetchRate
  | ErrStatusCode int
  | ErrDecodeResponse
  | ErrInvalidRate 'f

definition StatusOK :: int where "StatusOK = 200"

definition GetUSDTToIDRRate :: "('f::{zero,linorder}) http_exchange \<Rightarrow> 'f provider_error + 'f" where
  "GetUSDTToIDRRate x =
     (case x of
        RequestNotCreated \<Rightarrow> Inl ErrCreateRequest
      | TransportFailed \<Rightarrow> Inl ErrFetchRate
      | Response statusCode body \<Rightarrow>
          if statusCode \<noteq> StatusOK then Inl (ErrStatusCode statusCode)
          else
            (case body of
               None \<Rightarrow> Inl ErrDecodeResponse
             | Some baseResp \<Rightarrow>
                 (let rate' = Amount (Result baseResp) in
                  if rate' \<le> 0 then Inl (ErrInvalidRate rate') else Inr rate')))"

text \<open>The cache. Times are nanosecond readings of the clock; \<open>time.Since t\<close> at the
  reading \<open>now\<close> is \<open>now - t\<close>.\<close>

record 'f rateCache =
  rate :: 'f
  timestamp :: int
  ttl :: int

datatype 'f rate_error = NoCachedRate | CachedRateExpired | FetchFailed "'f provider_error"

definition newRateCache :: "int \<Rightarrow> ('f::zero) rateCache" where
  "newRateCache ttl' = \<lparr>rate = 0, timestamp = 0, ttl = ttl'\<rparr>"

definition get :: "('f::zero) rateCache \<Rightarrow> int \<Rightarrow> 'f rate_error + 'f" where
  "get c now =
     (if rate c = 0 then Inl NoCachedRate
      else if now - timestamp c > ttl c then Inl CachedRateExpired
      else Inr (rate c))"

definition set' :: "'f rateCache \<Rightarrow> 'f \<Rightarrow> int \<Rightarrow> 'f rateCache" where
  "set' c rate' now = c\<lparr>rate := rate', timestamp := now\<rparr>"

definition isExpired :: "('f::zero) rateCache \<Rightarrow> int \<Rightarrow> bool" where
  "isExpired c now = (rate c = 0 \<or> now - timestamp c > ttl c)"

text \<open>
  \<open>GetCurrentRate\<close> of the cached currency service, with the provider's answer as an
  argument (it is asked only on the last path). The method reads the clock at up to
  five places; \<open>clock k\<close> is the reading at the \<open>k\<close>-th place in program order.
\<close>

definition GetCurrentRate :: "('f::zero) rateCache \<Rightarrow> ('f provider_error + 'f) \<Rightarrow> (nat \<Rightarrow> int) \<Rightarrow> ('f rate_error + 'f) \<times> 'f rateCache" where
  "GetCurrentRate cache provided clock =
     (let first = (if \<not> isExpired cache (clock 0) then get cache (clock 1) else Inl CachedRateExpired)
      in case first of
           Inr rate' \<Rightarrow> (Inr rate', cache)
         | Inl _ \<Rightarrow>
             (let second = (if \<not> isExpired cache (clock 2) then get cache (clock 3)
                            else Inl CachedRateExpired)
              in case second of
                   Inr rate' \<Rightarrow> (Inr rate', cache)
                 | Inl _ \<Rightarrow>
                     (case provided of
                        Inl err \<Rightarrow> (Inl (FetchFailed err), cache)
                      | Inr rate' \<Rightarrow> (Inr rate', set' cache rate' (clock 4)))))"

text \<open>The service as \<open>initTransformer\<close> wires it: a cache in front of the HTTP provider.
  \<open>serve\<close> runs a sequence of calls, each with what its HTTP exchange would produce and
  its clock readings, and collects the results.\<close>

fun serve :: "('f::{zero,linorder}) rateCache \<Rightarrow> ('f http_exchange \<times> (nat \<Rightarrow> int)) list \<Rightarrow> ('f rate_error + 'f) list \<times> 'f rateCache" where
  "serve cache [] = ([], cache)"
| "serve cache ((x, clock) # calls) =
     (case GetCurrentRate cache (GetUSDTToIDRRate x) clock of
        (r, cache') \<Rightarrow> (case serve cache' calls of (rs, cache'') \<Rightarrow> (r # rs, cache'')))"

section \<open>The transformer (internal/service)\<close>

text \<open>
  The struct \<open>UserMargin\<close>. Its numeric fields are \<open>float64\<close>; their type is a parameter
  and so is the multiplication on them (\<open>fmul\<close>), since a \<open>float64\<close> product is not the
  product of the reals. \<open>json.Unmarshal\<close> into the struct and \<open>json.Marshal\<close> of it are
  the parameters \<open>unmarshal\<close> and \<open>marshal\<close> (\<open>None\<close> for an error), and \<open>getRate\<close> is what
  the currency service answers.
\<close>

record 'f UserMargin =
  um_Timestamp :: int
  CFXUserID :: string
  Asset :: string
  TotalPositionValue :: 'f
  MarginBalance :: 'f
  OrderMargin :: 'f
  EffectiveLeverage :: 'f
  MaintenanceMargin :: 'f
  UnrealizedPnl :: 'f
  AvailableMargin :: 'f
  WalletBalance :: 'f
  MarginRatio :: 'f
  WithdrawableMargin :: 'f

datatype 'e transform_error = ErrUnmarshal | ErrExchangeRate 'e | ErrMarshal

definition TransformUserMargin :: "(string \<Rightarrow> 'f UserMargin option) \<Rightarrow> ('f UserMargin \<Rightarrow> string option) \<Rightarrow> ('f \<Rightarrow> 'f \<Rightarrow> 'f) \<Rightarrow> ('e + 'f) \<Rightarrow> string \<Rightarrow> string \<Rightarrow> 'e transform_error + string" where
  "TransformUserMargin unmarshal marshal fmul getRate data cfxUserID' =
     (case unmarshal data of
        None \<Rightarrow> Inl ErrUnmarshal
      | Some margin \<Rightarrow>
          if Asset margin \<noteq> ''IDR'' then Inr data
          else
            (case getRate of
               Inl err \<Rightarrow> Inl (ErrExchangeRate err)
             | Inr rate' \<Rightarrow>
                 (let margin1 = margin\<lparr>TotalPositionValue := fmul (TotalPositionValue margin) rate'\<rparr>;
                      margin2 = margin1\<lparr>MarginBalance := fmul (MarginBalance margin1) rate'\<rparr>;
                      margin3 = margin2\<lparr>OrderMargin := fmul (OrderMargin margin2) rate'\<rparr>;
                      margin4 = margin3\<lparr>MaintenanceMargin := fmul (MaintenanceMargin margin3) rate'\<rparr>;
                      margin5 = margin4\<lparr>UnrealizedPnl := fmul (UnrealizedPnl margin4) rate'\<rparr>;
                      margin6 = margin5\<lparr>AvailableMargin := fmul (AvailableMargin margin5) rate'\<rparr>;
                      margin7 = margin6\<lparr>WalletBalance := fmul (WalletBalance margin6) rate'\<rparr>;
                      margin8 = margin7\<lparr>WithdrawableMargin := fmul (WithdrawableMargin margin7) rate'\<rparr>
                  in case marshal margin8 of
                       None \<Rightarrow> Inl ErrMarshal
                     | Some transformedData \<Rightarrow> Inr transformedData)))"

section \<open>The sessions a user has\<close>

text \<open>The number the spec compares \<open>connections_per_user[p]\<close> with: the live sessions
  whose public identifier is \<open>p\<close>.\<close>

definition live_sessions :: "'a hub_state_scheme \<Rightarrow> string \<Rightarrow> nat" where
  "live_sessions st p = card {client \<in> clients (hub st). ajaibID (heap st client) = p}"

section \<open>Example states\<close>

text \<open>A Hub with the given limit and no session yet; every address holds a client of
  user \<open>111\<close>, internal identifier \<open>C1\<close>, with an empty queue of capacity 256.\<close>

definition one_client :: "int \<Rightarrow> hub_state" where
  "one_client n = \<lparr>hub = NewHub n, heap = (\<lambda>_. NewClient None ''c1'' ''111'' ''C1'')\<rparr>"

text \<open>A response of the rate endpoint with status 200 and the given amount.\<close>

definition rate_response :: "real \<Rightarrow> real http_exchange" where
  "rate_response a =
     Response 200 (Some \<lparr>Result = \<lparr>BaseCurrency = ''USDT'', QuoteCurrency = ''IDR'', Amount = a\<rparr>\<rparr>)"

text \<open>The configuration of the README's "How to Test", with its two timers exchanged:
  the ping interval (30 s) is longer than the pong timeout (2 s). \<open>reader_created\<close> is
  a library call that returns a reader.\<close>

definition slow_ping_config :: Configuration where
  "slow_ping_config =
     \<lparr>Kafka = \<lparr>Brokers = [''kafka-1.platform.stg.ajaib.int:9092'',
                          ''kafka-2.platform.stg.ajaib.int:9092'',
                          ''kafka-3.platform.stg.ajaib.int:9092''],
               Topics = [''com.ajaib.coin.cfx.streamer.futures.message.UserMargin'',
                         ''com.ajaib.coin.cfx.streamer.futures.message.UserPosition''],
               ConsumerGroup = ''coin-futures-websocket'', InitialOffset = ''latest'',
               SessionTimeout = 10000, HeartbeatInterval = 1000\<rparr>,
      WebSocketServer = \<lparr>Enabled = True, Port = 8009, PingIntervalMs = 30000,
               PingTimeoutMs = 2000, MaxConnectionsPerUser = 5, ReadBufferSize = 0,
               WriteBufferSize = 0, ShutdownTimeoutMs = 10000\<rparr>\<rparr>"

definition reader_created :: "ReaderConfig \<Rightarrow> unit option" where
  "reader_created readerConfig = Some ()"

text \<open>The session at address 0 of user \<open>111\<close> (internal identifier \<open>C1\<close>), registered,
  with the tracker attached: before any subscription, and subscribed to both of its
  channels.\<close>

definition connected :: handler_state where
  "connected =
     \<lparr>hub = \<lparr>clients = {0}, userConnections = [''111'' \<mapsto> 1], channels = Map.empty,
             maxConnectionsPerUser = 5\<rparr>,
      heap = (\<lambda>_. NewClient None ''c1'' ''111'' ''C1''),
      kafkaBroadcaster = Some NewBroadcaster\<rparr>"

definition both_subscribed :: handler_state where
  "both_subscribed =
     \<lparr>hub = \<lparr>clients = {0}, userConnections = [''111'' \<mapsto> 1],
             channels = [''user:111:margin'' \<mapsto> {0}, ''user:111:position'' \<mapsto> {0}],
             maxConnectionsPerUser = 5\<rparr>,
      heap = (\<lambda>_. NewClient None ''c1'' ''111'' ''C1'')
               (0 := (NewClient None ''c1'' ''111'' ''C1'')
                      \<lparr>send := \<lparr>buf = [NewSubscribedMessage ''s1'' ''user:111:margin'' 1,
                                      NewSubscribedMessage ''s2'' ''user:111:position'' 2],
                               cap = 256, is_closed = False\<rparr>,
                       subscriptions := {''user:111:margin'', ''user:111:position''}\<rparr>),
      kafkaBroadcaster = Some \<lparr>activeUsers = [''C1'' \<mapsto> ''111'']\<rparr>\<rparr>"

definition subscribe_cmd :: "string \<Rightarrow> string \<Rightarrow> Message" where
  "subscribe_cmd requestID channel =
     \<lparr>ID = requestID, Type = TypeSubscribe, Channel = channel, Data = [], Success = False,
      Code = 0, Message = [], Timestamp = 0\<rparr>"

definition unsubscribe_cmd :: "string \<Rightarrow> string \<Rightarrow> Message" where
  "unsubscribe_cmd requestID channel =
     \<lparr>ID = requestID, Type = TypeUnsubscribe, Channel = channel, Data = [], Success = False,
      Code = 0, Message = [], Timestamp = 0\<rparr>"

text \<open>Two sessions subscribed to one channel: the queue of the session at address 0 is
  empty, the queue of the session at address 1 (capacity 1) is full.\<close>

definition two_subscribers :: hub_state where
  "two_subscribers =
     \<lparr>hub = \<lparr>clients = {0, 1}, userConnections = [''111'' \<mapsto> 2],
             channels = [''user:111:margin'' \<mapsto> {0, 1}], maxConnectionsPerUser = 5\<rparr>,
      heap = (\<lambda>_. (NewClient None ''c1'' ''111'' ''C1'')\<lparr>subscriptions := {''user:111:margin''}\<rparr>)
               (1 := (NewClient None ''c2'' ''111'' ''C1'')
                      \<lparr>send := \<lparr>buf = [NewSubscribedMessage ''s1'' ''user:111:margin'' 1],
                               cap = 1, is_closed = False\<rparr>,
                       subscriptions := {''user:111:margin''}\<rparr>)\<rparr>"

text \<open>A margin payload in the local-currency marker \<open>IDR\<close>, a decoder that knows the one
  input text \<open>in\<close>, and an encoder that tells the converted payload from any other.\<close>

definition idr_margin :: "real UserMargin" where
  "idr_margin =
     \<lparr>um_Timestamp = 1, CFXUserID = ''C1'', Asset = ''IDR'', TotalPositionValue = 1,
      MarginBalance = 2, OrderMargin = 3, EffectiveLeverage = 4, MaintenanceMargin = 5,
      UnrealizedPnl = 6, AvailableMargin = 7, WalletBalance = 8, MarginRatio = 9,
      WithdrawableMargin = 10\<rparr>"

definition idr_margin_converted :: "real UserMargin" where
  "idr_margin_converted =
     \<lparr>um_Timestamp = 1, CFXUserID = ''C1'', Asset = ''IDR'', TotalPositionValue = 15000,
      MarginBalance = 30000, OrderMargin = 45000, EffectiveLeverage = 4,
      MaintenanceMargin = 75000, UnrealizedPnl = 90000, AvailableMargin = 105000,
      WalletBalance = 120000, MarginRatio = 9, WithdrawableMargin = 150000\<rparr>"

definition toy_unmarshal :: "string \<Rightarrow> real UserMargin option" where
  "toy_unmarshal data = (if data = ''in'' then Some idr_margin else None)"

definition toy_marshal :: "real UserMargin \<Rightarrow> string option" where
  "toy_marshal m = Some (if m = idr_margin_converted then ''converted'' else ''other'')"


section \<open>The channel parser\<close>

lemma Split_ne: "Split s sep \<noteq> []"
  by (induction s) (auto split: list.splits)

lemma Split_no_sep: "sep \<notin> set a \<Longrightarrow> Split a sep = [a]"
  by (induction a) auto

lemma Split_append: "sep \<notin> set a \<Longrightarrow> Split (a @ sep # b) sep = a # Split b sep"
  by (induction a) auto

lemma Split_one: "Split s sep = [b] \<Longrightarrow> s = b"
proof (induction s arbitrary: b)
  case Nil
  then show ?case by simp
next
  case (Cons c cs)
  then show ?case using Split_ne [of cs sep] by (auto split: if_splits list.splits)
qed

lemma Split_two: "Split s sep = [a, b] \<Longrightarrow> s = a @ sep # b"
proof (induction s arbitrary: a)
  case Nil
  then show ?case by simp
next
  case (Cons c cs)
  show ?case
  proof (cases "c = sep")
    case True
    with Cons.prems have "a = []" "Split cs sep = [b]" by auto
    then show ?thesis using True Split_one by auto
  next
    case False
    then show ?thesis using Cons by (auto split: list.splits)
  qed
qed

lemma isDigit_colon: "\<not> isDigit (CHR '':'')"
  by (simp add: isDigit_def)

lemma digits_no_colon: "isValidAjaibID p \<Longrightarrow> CHR '':'' \<notin> set p"
  using isDigit_colon by (auto simp: isValidAjaibID_def list_all_iff)

lemma suffix_no_colon: "ValidUserChannels s \<Longrightarrow> CHR '':'' \<notin> set s"
  by (auto simp: ValidUserChannels_def)

lemma HasPrefix_append: "HasPrefix (p @ s) p"
  by (simp add: HasPrefix_def)

lemma HasPrefix_D: "HasPrefix s p \<Longrightarrow> s = p @ TrimPrefix s p"
  by (simp add: HasPrefix_def TrimPrefix_def) (metis append_take_drop_id)

lemma ParseChannel_valid:
  assumes "isValidAjaibID pid" "ValidUserChannels suf"
  shows "ParseChannel (''user:'' @ pid @ '':'' @ suf) =
     Inr \<lparr>Name = ''user:'' @ pid @ '':'' @ suf, Prefix = ''user:'', UserID = [],
          AjaibID = pid, ChannelSub = suf\<rparr>"
proof -
  have hp: "HasPrefix (''user:'' @ pid @ '':'' @ suf) PrefixUser"
    unfolding PrefixUser_def by (rule HasPrefix_append)
  have tp: "TrimPrefix (''user:'' @ pid @ '':'' @ suf) PrefixUser = pid @ CHR '':'' # suf"
    using hp by (simp add: TrimPrefix_def PrefixUser_def)
  have sp: "Split (pid @ CHR '':'' # suf) (CHR '':'') = [pid, suf]"
    using assms by (simp add: Split_append Split_no_sep digits_no_colon suffix_no_colon)
  have ne: "pid \<noteq> []" "suf \<noteq> []"
    using assms by (auto simp: isValidAjaibID_def ValidUserChannels_def)
  show ?thesis
    unfolding ParseChannel_def using hp tp sp ne assms by (simp add: PrefixUser_def)
qed

lemma ParseChannel_Inr_D:
  assumes "ParseChannel ch = Inr info"
  shows "isValidAjaibID (AjaibID info) \<and> ValidUserChannels (ChannelSub info) \<and>
         ch = ''user:'' @ AjaibID info @ '':'' @ ChannelSub info"
proof -
  from assms have hp: "HasPrefix ch PrefixUser"
    by (auto simp: ParseChannel_def split: if_splits)
  define parts where "parts = Split (TrimPrefix ch PrefixUser) (CHR '':'')"
  from assms hp have len: "length parts = 2"
    by (auto simp: ParseChannel_def Let_def parts_def split: if_splits)
  then obtain a b where ab: "parts = [a, b]"
    by (cases parts; cases "tl parts") auto
  from assms hp len ab have info: "AjaibID info = a" "ChannelSub info = b"
    "isValidAjaibID a" "ValidUserChannels b"
    by (auto simp: ParseChannel_def Let_def parts_def [symmetric] split: if_splits)
  from ab have "TrimPrefix ch PrefixUser = a @ CHR '':'' # b"
    unfolding parts_def by (rule Split_two)
  with HasPrefix_D [OF hp] have "ch = ''user:'' @ a @ '':'' @ b"
    by (simp add: PrefixUser_def)
  with info show ?thesis by simp
qed

lemma isValidAjaibID_pattern:
  "isValidAjaibID p \<longleftrightarrow>
     1 \<le> length p \<and> length p \<le> 10 \<and> set p \<subseteq> set ''0123456789''"
  unfolding isValidAjaibID_def isDigit_def list_all_iff by blast

text \<open>
  Claim C7. For every public identifier that matches \<open>[0-9]{1,10}\<close> (one to ten bytes,
  each one of the ten decimal digits) and every suffix among \<open>margin\<close> and \<open>position\<close>,
  \<open>ParseChannel\<close> accepts \<open>user:<public_id>:<suffix>\<close> and returns exactly these two
  components; on every string that is not of this shape it returns an error.
\<close>

theorem ParseChannel_correct:
  "(1 \<le> length pid \<and> length pid \<le> 10 \<and> set pid \<subseteq> set ''0123456789'' \<and>
    (suf = ''margin'' \<or> suf = ''position'') \<longrightarrow>
      ParseChannel (''user:'' @ pid @ '':'' @ suf) =
        Inr \<lparr>Name = ''user:'' @ pid @ '':'' @ suf, Prefix = ''user:'', UserID = [],
             AjaibID = pid, ChannelSub = suf\<rparr>) \<and>
   ((\<nexists>p s. 1 \<le> length p \<and> length p \<le> 10 \<and> set p \<subseteq> set ''0123456789'' \<and>
            (s = ''margin'' \<or> s = ''position'') \<and> ch = ''user:'' @ p @ '':'' @ s) \<longrightarrow>
      (\<exists>e. ParseChannel ch = Inl e))"
proof (intro conjI impI)
  assume "1 \<le> length pid \<and> length pid \<le> 10 \<and> set pid \<subseteq> set ''0123456789'' \<and>
    (suf = ''margin'' \<or> suf = ''position'')"
  then have "isValidAjaibID pid" "ValidUserChannels suf"
    by (simp_all only: isValidAjaibID_pattern ValidUserChannels_def)
  then show "ParseChannel (''user:'' @ pid @ '':'' @ suf) =
        Inr \<lparr>Name = ''user:'' @ pid @ '':'' @ suf, Prefix = ''user:'', UserID = [],
             AjaibID = pid, ChannelSub = suf\<rparr>"
    by (rule ParseChannel_valid)
next
  assume no: "\<nexists>p s. 1 \<le> length p \<and> length p \<le> 10 \<and> set p \<subseteq> set ''0123456789'' \<and>
            (s = ''margin'' \<or> s = ''position'') \<and> ch = ''user:'' @ p @ '':'' @ s"
  show "\<exists>e. ParseChannel ch = Inl e"
  proof (cases "ParseChannel ch")
    case (Inl e)
    then show ?thesis by blast
  next
    case (Inr info)
    have "isValidAjaibID (AjaibID info)" "ValidUserChannels (ChannelSub info)"
      "ch = ''user:'' @ AjaibID info @ '':'' @ ChannelSub info"
      using ParseChannel_Inr_D [OF Inr] by simp_all
    then have "1 \<le> length (AjaibID info) \<and> length (AjaibID info) \<le> 10 \<and>
        set (AjaibID info) \<subseteq> set ''0123456789'' \<and>
        (ChannelSub info = ''margin'' \<or> ChannelSub info = ''position'') \<and>
        ch = ''user:'' @ AjaibID info @ '':'' @ ChannelSub info"
      by (simp only: isValidAjaibID_pattern ValidUserChannels_def)
    with no show ?thesis by blast
  qed
qed

theorem ParseChannel_correct_witness:
  "ParseChannel ''user:130010505:margin'' =
      Inr \<lparr>Name = ''user:130010505:margin'', Prefix = ''user:'', UserID = [],
           AjaibID = ''130010505'', ChannelSub = ''margin''\<rparr> \<and>
   (\<exists>e. ParseChannel ''user:12345678901:margin'' = Inl e) \<and>
   (\<exists>e. ParseChannel ''user:abc:margin'' = Inl e)"
proof -
  have v: "1 \<le> length ''130010505'' \<and> length ''130010505'' \<le> 10 \<and>
      set ''130010505'' \<subseteq> set ''0123456789'' \<and>
      (''margin'' = ''margin'' \<or> ''margin'' = ''position'')"
    by simp
  have n1: "\<nexists>p s. 1 \<le> length p \<and> length p \<le> 10 \<and> set p \<subseteq> set ''0123456789'' \<and>
            (s = ''margin'' \<or> s = ''position'') \<and>
            ''user:12345678901:margin'' = ''user:'' @ p @ '':'' @ s"
  proof
    assume "\<exists>p s. 1 \<le> length p \<and> length p \<le> 10 \<and> set p \<subseteq> set ''0123456789'' \<and>
            (s = ''margin'' \<or> s = ''position'') \<and>
            ''user:12345678901:margin'' = ''user:'' @ p @ '':'' @ s"
    then obtain p s where ps: "length p \<le> 10" "s = ''margin'' \<or> s = ''position''"
      "''12345678901:margin'' = p @ '':'' @ s" by auto
    from ps(2,3) have "p = ''12345678901''"
      by (auto simp: append_eq_Cons_conv Cons_eq_append_conv)
    with ps(1) show False by simp
  qed
  have n2: "\<nexists>p s. 1 \<le> length p \<and> length p \<le> 10 \<and> set p \<subseteq> set ''0123456789'' \<and>
            (s = ''margin'' \<or> s = ''position'') \<and>
            ''user:abc:margin'' = ''user:'' @ p @ '':'' @ s"
  proof
    assume "\<exists>p s. 1 \<le> length p \<and> length p \<le> 10 \<and> set p \<subseteq> set ''0123456789'' \<and>
            (s = ''margin'' \<or> s = ''position'') \<and>
            ''user:abc:margin'' = ''user:'' @ p @ '':'' @ s"
    then obtain p s where ps: "set p \<subseteq> set ''0123456789''" "s = ''margin'' \<or> s = ''position''"
      "''abc:margin'' = p @ '':'' @ s" by auto
    from ps(2,3) have "p = ''abc''"
      by (auto simp: append_eq_Cons_conv Cons_eq_append_conv)
    with ps(1) show False by simp
  qed
  from ParseChannel_correct [of "''130010505''" "''margin''" "''user:12345678901:margin''"] v n1
  have a: "ParseChannel ''user:130010505:margin'' =
      Inr \<lparr>Name = ''user:130010505:margin'', Prefix = ''user:'', UserID = [],
           AjaibID = ''130010505'', ChannelSub = ''margin''\<rparr>"
    and b: "\<exists>e. ParseChannel ''user:12345678901:margin'' = Inl e"
    by simp_all
  from ParseChannel_correct [of "''130010505''" "''margin''" "''user:abc:margin''"] n2
  have c: "\<exists>e. ParseChannel ''user:abc:margin'' = Inl e" by blast
  from a b c show ?thesis by blast
qed

section \<open>The Hub: unregistration\<close>

text \<open>
  Claim C1, as the code has it. The claim asks that a second \<open>unregister\<close> of the same
  session changes nothing and does not close the queue again. \<open>unregisterClient\<close> has no
  such guard: whenever the session's queue is open, the first call returns and leaves
  the queue closed, and a second call with the same session ends in the panic of
  closing a closed channel.
\<close>

theorem unregister_twice_panics:
  assumes "\<not> is_closed (send (heap st client))"
  shows "\<exists>st'. unregisterClient st client = Inr st' \<and>
               is_closed (send (heap st' client)) \<and>
               unregisterClient st' client = Inl CloseOfClosedChannel"
proof -
  from assms obtain st' where st': "unregisterClient st client = Inr st'"
    by (auto simp: unregisterClient_def Let_def chan_close_def)
  then have "is_closed (send (heap st' client))"
    using assms by (auto simp: unregisterClient_def Let_def chan_close_def split: if_splits)
  moreover from this have "unregisterClient st' client = Inl CloseOfClosedChannel"
    by (simp add: unregisterClient_def Let_def chan_close_def)
  ultimately show ?thesis using st' by blast
qed

theorem unregister_twice_panics_witness:
  "(\<exists>st'. unregisterClient (registerClient (one_client 5) 0) 0 = Inr st' \<and>
          is_closed (send (heap st' 0)) \<and>
          unregisterClient st' 0 = Inl CloseOfClosedChannel)"
proof -
  have "\<not> is_closed (send (heap (registerClient (one_client 5) 0) 0))"
    by (simp add: one_client_def registerClient_def NewHub_def NewClient_def DefaultClientConfig_def make_chan_def Let_def)
  then show ?thesis by (rule unregister_twice_panics)
qed

section \<open>The Hub: subscribe and unsubscribe\<close>

text \<open>
  Claim C3, as the code has it. The claim asks that \<open>subscribe\<close> followed by
  \<open>unsubscribe\<close> restores the Hub and leaves no empty subscriber set. For a channel
  that had no entry, \<open>UnsubscribeClient\<close> leaves the entry behind with the empty set,
  so the Hub is not what it was.
\<close>

theorem subscribe_unsubscribe_leaves_empty_set:
  assumes "channels (hub st) channel = None"
  shows "channels (hub (UnsubscribeClient (SubscribeClient st client channel) client channel)) channel
           = Some {} \<and>
         hub (UnsubscribeClient (SubscribeClient st client channel) client channel) \<noteq> hub st"
proof -
  have "channels (hub (UnsubscribeClient (SubscribeClient st client channel) client channel)) channel
           = Some {}"
    using assms by (simp add: UnsubscribeClient_def SubscribeClient_def Let_def)
  with assms show ?thesis by auto
qed

theorem subscribe_unsubscribe_leaves_empty_set_witness:
  "channels (hub (UnsubscribeClient (SubscribeClient (registerClient (one_client 5) 0) 0
      ''user:111:margin'') 0 ''user:111:margin'')) ''user:111:margin'' = Some {} \<and>
   channels (hub (registerClient (one_client 5) 0)) ''user:111:margin'' = None"
proof -
  have h: "channels (hub (registerClient (one_client 5) 0)) ''user:111:margin'' = None"
    by (simp add: one_client_def registerClient_def NewHub_def NewClient_def Let_def)
  from subscribe_unsubscribe_leaves_empty_set [OF h, of 0] h show ?thesis by simp
qed

text \<open>Where the channel already had other subscribers, the round trip does restore
  the state.\<close>

lemma subscribe_unsubscribe_restores:
  fixes st :: "'a hub_state_scheme"
  assumes "channels (hub st) channel = Some cs" "client \<notin> cs"
    "channel \<notin> subscriptions (heap st client)"
  shows "UnsubscribeClient (SubscribeClient st client channel) client channel = st"
proof -
  have "(channels (hub st))(channel \<mapsto> cs) = channels (hub st)"
    using assms(1) by (auto simp: fun_eq_iff)
  moreover have "(heap st)(client := heap st client) = heap st" by simp
  moreover have "insert channel (subscriptions (heap st client)) - {channel}
      = subscriptions (heap st client)" using assms(3) by auto
  ultimately show ?thesis
    using assms(1,2) by (simp add: UnsubscribeClient_def SubscribeClient_def Let_def)
qed

section \<open>The Hub: connections per user\<close>

lemma live_sessions_heap_cong:
  "clients (hub st') = clients (hub st) \<Longrightarrow>
   (\<And>r. ajaibID (heap st' r) = ajaibID (heap st r)) \<Longrightarrow>
   live_sessions st' p = live_sessions st p"
  by (simp add: live_sessions_def)

lemma live_sessions_insert:
  assumes "finite (clients (hub st))" "client \<notin> clients (hub st)"
    and "clients (hub st') = insert client (clients (hub st))"
    and "\<And>r. ajaibID (heap st' r) = ajaibID (heap st r)"
  shows "live_sessions st' p =
         (if ajaibID (heap st client) = p then Suc (live_sessions st p) else live_sessions st p)"
proof -
  define S where "S = {r \<in> clients (hub st). ajaibID (heap st r) = p}"
  have fin: "finite S" using assms(1) by (simp add: S_def)
  have notin: "client \<notin> S" using assms(2) by (simp add: S_def)
  have "{r \<in> clients (hub st'). ajaibID (heap st' r) = p} =
        (if ajaibID (heap st client) = p then insert client S else S)"
    using assms(3,4) by (auto simp: S_def)
  then have "live_sessions st' p =
        (if ajaibID (heap st client) = p then card (insert client S) else card S)"
    by (simp add: live_sessions_def)
  also have "card (insert client S) = Suc (card S)"
    using fin notin by (rule card_insert_disjoint)
  finally show ?thesis by (simp add: live_sessions_def S_def)
qed

lemma live_sessions_remove:
  assumes "finite (clients (hub st))" "client \<in> clients (hub st)"
    and "clients (hub st') = clients (hub st) - {client}"
    and "\<And>r. ajaibID (heap st' r) = ajaibID (heap st r)"
  shows "live_sessions st' p =
         (if ajaibID (heap st client) = p then live_sessions st p - 1 else live_sessions st p)"
proof -
  define S where "S = {r \<in> clients (hub st). ajaibID (heap st r) = p}"
  have fin: "finite S" using assms(1) by (simp add: S_def)
  have "{r \<in> clients (hub st'). ajaibID (heap st' r) = p} =
        (if ajaibID (heap st client) = p then S - {client} else S)"
    using assms(3,4) by (auto simp: S_def)
  then have "live_sessions st' p =
        (if ajaibID (heap st client) = p then card (S - {client}) else card S)"
    by (simp add: live_sessions_def)
  moreover have "card (S - {client}) = card S - 1" if "ajaibID (heap st client) = p"
  proof -
    have "client \<in> S" using that assms(2) by (simp add: S_def)
    then show ?thesis by (rule card_Diff_singleton)
  qed
  ultimately show ?thesis by (simp add: live_sessions_def S_def)
qed

lemma live_sessions_pos:
  assumes "finite (clients (hub st))" "client \<in> clients (hub st)"
  shows "0 < live_sessions st (ajaibID (heap st client))"
proof -
  define S where "S = {r \<in> clients (hub st). ajaibID (heap st r) = ajaibID (heap st client)}"
  have "finite S" "client \<in> S" using assms by (simp_all add: S_def)
  then have "0 < card S" by (auto simp: card_gt_0_iff)
  then show ?thesis by (simp add: live_sessions_def S_def)
qed

lemma register_counts:
  assumes max: "0 < maxConnectionsPerUser (hub st)"
    and fin: "finite (clients (hub st))"
    and inv: "\<And>p. p \<noteq> [] \<Longrightarrow> GetUserConnectionCount st p = int (live_sessions st p)"
    and fresh: "client \<notin> clients (hub st)"
    and p: "p \<noteq> []"
  shows "GetUserConnectionCount (registerClient st client) p = int (live_sessions (registerClient st client) p)"
proof -
  let ?a = "ajaibID (heap st client)"
  let ?n = "case userConnections (hub st) ?a of None \<Rightarrow> 0 | Some n \<Rightarrow> n"
  consider (rejected) "?a \<noteq> []" "?n \<ge> maxConnectionsPerUser (hub st)"
    | (counted) "?a \<noteq> []" "\<not> ?n \<ge> maxConnectionsPerUser (hub st)"
    | (anonymous) "?a = []" by blast
  then show ?thesis
  proof cases
    case rejected
    then have "registerClient st client = st"
      using max by (simp add: registerClient_def Let_def)
    then show ?thesis using inv p by simp
  next
    case counted
    let ?st' = "registerClient st client"
    have hub': "clients (hub ?st') = insert client (clients (hub st))"
      "userConnections (hub ?st') = (userConnections (hub st))(?a \<mapsto> ?n + 1)"
      "heap ?st' = heap st"
      using counted max by (simp_all add: registerClient_def Let_def)
    have live: "live_sessions ?st' p = (if ?a = p then Suc (live_sessions st p) else live_sessions st p)"
      by (rule live_sessions_insert [OF fin fresh hub'(1)]) (simp add: hub'(3))
    have "?n = GetUserConnectionCount st ?a" by (simp add: GetUserConnectionCount_def)
    then have n: "?n = int (live_sessions st ?a)" using inv counted(1) by simp
    show ?thesis
      using live n inv [OF p] hub'(2) by (auto simp: GetUserConnectionCount_def)
  next
    case anonymous
    let ?st' = "registerClient st client"
    have hub': "clients (hub ?st') = insert client (clients (hub st))"
      "userConnections (hub ?st') = userConnections (hub st)"
      "heap ?st' = heap st"
      using anonymous by (simp_all add: registerClient_def Let_def)
    have live: "live_sessions ?st' p = (if ?a = p then Suc (live_sessions st p) else live_sessions st p)"
      by (rule live_sessions_insert [OF fin fresh hub'(1)]) (simp add: hub'(3))
    show ?thesis
      using live inv [OF p] hub'(2) anonymous p by (auto simp: GetUserConnectionCount_def)
  qed
qed

lemma unregister_counts:
  assumes fin: "finite (clients (hub st))"
    and inv: "\<And>p. p \<noteq> [] \<Longrightarrow> GetUserConnectionCount st p = int (live_sessions st p)"
    and live: "client \<in> clients (hub st)"
    and ret: "unregisterClient st client = Inr st'"
    and p: "p \<noteq> []"
  shows "GetUserConnectionCount st' p = int (live_sessions st' p)"
proof -
  let ?a = "ajaibID (heap st client)"
  from ret have cl: "clients (hub st') = clients (hub st) - {client}"
    and aj: "\<And>r. ajaibID (heap st' r) = ajaibID (heap st r)"
    by (auto simp: unregisterClient_def Let_def split: sum.splits)
  have lv: "live_sessions st' p = (if ?a = p then live_sessions st p - 1 else live_sessions st p)"
    by (rule live_sessions_remove [OF fin live cl aj])
  show ?thesis
  proof (cases "?a = []")
    case True
    with ret have "userConnections (hub st') = userConnections (hub st)"
      by (auto simp: unregisterClient_def Let_def split: sum.splits)
    then show ?thesis using lv inv [OF p] True p by (auto simp: GetUserConnectionCount_def)
  next
    case False
    have pos: "0 < live_sessions st ?a" by (rule live_sessions_pos [OF fin live])
    with inv [OF False] obtain n where n: "userConnections (hub st) ?a = Some n"
      "n = int (live_sessions st ?a)" "0 < n"
      by (auto simp: GetUserConnectionCount_def split: option.splits)
    from ret False n have uc: "userConnections (hub st') =
        (if n - 1 = 0 then (userConnections (hub st))(?a := None)
         else (userConnections (hub st))(?a \<mapsto> n - 1))"
      by (auto simp: unregisterClient_def Let_def split: sum.splits)
    show ?thesis
    proof (cases "?a = p")
      case True
      then show ?thesis using uc lv n pos by (auto simp: GetUserConnectionCount_def)
    next
      case False
      then show ?thesis using uc lv inv [OF p] by (auto simp: GetUserConnectionCount_def)
    qed
  qed
qed

lemma subscribe_counts:
  "GetUserConnectionCount (SubscribeClient st client channel) p = GetUserConnectionCount st p \<and>
   live_sessions (SubscribeClient st client channel) p = live_sessions st p \<and>
   clients (hub (SubscribeClient st client channel)) = clients (hub st) \<and>
   maxConnectionsPerUser (hub (SubscribeClient st client channel)) = maxConnectionsPerUser (hub st)"
proof -
  have "clients (hub (SubscribeClient st client channel)) = clients (hub st)"
    and "\<And>r. ajaibID (heap (SubscribeClient st client channel) r) = ajaibID (heap st r)"
    by (simp_all add: SubscribeClient_def Let_def)
  then have "live_sessions (SubscribeClient st client channel) p = live_sessions st p"
    by (rule live_sessions_heap_cong)
  then show ?thesis
    by (simp add: SubscribeClient_def Let_def GetUserConnectionCount_def)
qed

lemma unsubscribe_counts:
  "GetUserConnectionCount (UnsubscribeClient st client channel) p = GetUserConnectionCount st p \<and>
   live_sessions (UnsubscribeClient st client channel) p = live_sessions st p \<and>
   clients (hub (UnsubscribeClient st client channel)) = clients (hub st) \<and>
   maxConnectionsPerUser (hub (UnsubscribeClient st client channel)) = maxConnectionsPerUser (hub st)"
proof -
  have "clients (hub (UnsubscribeClient st client channel)) = clients (hub st)"
    and "\<And>r. ajaibID (heap (UnsubscribeClient st client channel) r) = ajaibID (heap st r)"
    by (simp_all add: UnsubscribeClient_def Let_def)
  then have "live_sessions (UnsubscribeClient st client channel) p = live_sessions st p"
    by (rule live_sessions_heap_cong)
  then show ?thesis
    by (simp add: UnsubscribeClient_def Let_def GetUserConnectionCount_def)
qed

text \<open>
  With a positive limit, registering a session that is not live, unregistering a live
  one, subscribing and unsubscribing keep the count of every non-empty public
  identifier equal to the number of its live sessions (lemmas \<open>register_counts\<close>,
  \<open>unregister_counts\<close>, \<open>subscribe_counts\<close> and \<open>unsubscribe_counts\<close>).
\<close>

text \<open>
  Claim C4, as the code has it. The claim asks that after every Hub operation, for every
  limit including 0, the count of a public identifier equals the number of its live
  sessions. With the limit 0 (no limit) \<open>registerClient\<close> records no count: after
  registering the first session of user \<open>111\<close>, \<open>GetUserConnectionCount\<close> gives 0 and one
  session of that user is live.
\<close>

theorem count_not_kept_without_limit:
  "GetUserConnectionCount (registerClient (one_client 0) 0) ''111'' = 0 \<and>
   live_sessions (registerClient (one_client 0) 0) ''111'' = 1"
  by (simp add: one_client_def registerClient_def NewHub_def NewClient_def
      GetUserConnectionCount_def live_sessions_def Let_def)

text \<open>
  With a positive limit the count is lost in another way. Under the limit 1 the session
  at address 0 is registered and the session at address 1 of the same user is rejected;
  the server starts the pumps of the rejected session all the same, and when its read
  pump exits it is unregistered: the count of the user drops to 0 while the session at
  address 0 is still live.
\<close>

lemma count_after_rejected_unregister:
  "registerClient (registerClient (one_client 1) 0) 1 = registerClient (one_client 1) 0 \<and>
   (\<exists>st'. unregisterClient (registerClient (one_client 1) 0) 1 = Inr st' \<and>
      GetUserConnectionCount st' ''111'' = 0 \<and> live_sessions st' ''111'' = 1)"
proof -
  let ?st = "registerClient (one_client 1) 0"
  have st: "?st = \<lparr>hub = \<lparr>clients = {0}, userConnections = [''111'' \<mapsto> 1],
        channels = Map.empty, maxConnectionsPerUser = 1\<rparr>,
      heap = (\<lambda>_. NewClient None ''c1'' ''111'' ''C1'')\<rparr>"
    by (simp add: one_client_def registerClient_def NewHub_def NewClient_def Let_def)
  have rej: "registerClient ?st 1 = ?st"
    unfolding st by (simp add: registerClient_def NewClient_def Let_def)
  obtain st' where un: "unregisterClient ?st 1 = Inr st'"
    unfolding st
    by (simp add: unregisterClient_def NewClient_def DefaultClientConfig_def make_chan_def
        chan_close_def Let_def)
  then have "clients (hub st') = {0}" "userConnections (hub st') ''111'' = None"
    "\<And>r. ajaibID (heap st' r) = ''111''"
    unfolding st
    by (auto simp: unregisterClient_def NewClient_def DefaultClientConfig_def make_chan_def
        chan_close_def Let_def)
  then have "GetUserConnectionCount st' ''111'' = 0" "live_sessions st' ''111'' = 1"
    by (simp_all add: GetUserConnectionCount_def live_sessions_def)
  with rej un show ?thesis by simp
qed

section \<open>The Hub: broadcast\<close>

lemma send_each_open:
  assumes "distinct xs" "\<forall>r \<in> set xs. \<not> is_closed (send (hp r))"
  shows "send_each xs data hp =
     Inr (\<lambda>r. if r \<in> set xs \<and> length (buf (send (hp r))) < cap (send (hp r))
              then (hp r)\<lparr>send := (send (hp r))\<lparr>buf := buf (send (hp r)) @ [data]\<rparr>\<rparr>
              else hp r)"
  using assms
proof (induction xs arbitrary: hp)
  case Nil
  then show ?case by simp
next
  case (Cons x xs)
  define ch where "ch = (if length (buf (send (hp x))) < cap (send (hp x))
                   then (send (hp x))\<lparr>buf := buf (send (hp x)) @ [data]\<rparr> else send (hp x))"
  have cs: "chan_try_send (send (hp x)) data =
      Inr (ch, length (buf (send (hp x))) < cap (send (hp x)))"
    using Cons.prems(2) by (simp add: chan_try_send_def ch_def)
  note ch = ch_def
  let ?hp = "hp(x := (hp x)\<lparr>send := ch\<rparr>)"
  have d: "distinct xs" and nx: "x \<notin> set xs" using Cons.prems(1) by simp_all
  have op: "\<forall>r \<in> set xs. \<not> is_closed (send (?hp r))"
    using Cons.prems(2) nx by auto
  have "send_each (x # xs) data hp = send_each xs data ?hp"
    using cs by simp
  also have "\<dots> = Inr (\<lambda>r. if r \<in> set xs \<and> length (buf (send (?hp r))) < cap (send (?hp r))
              then (?hp r)\<lparr>send := (send (?hp r))\<lparr>buf := buf (send (?hp r)) @ [data]\<rparr>\<rparr>
              else ?hp r)"
    by (rule Cons.IH [OF d op])
  also have "(\<lambda>r. if r \<in> set xs \<and> length (buf (send (?hp r))) < cap (send (?hp r))
              then (?hp r)\<lparr>send := (send (?hp r))\<lparr>buf := buf (send (?hp r)) @ [data]\<rparr>\<rparr>
              else ?hp r) =
        (\<lambda>r. if r \<in> set (x # xs) \<and> length (buf (send (hp r))) < cap (send (hp r))
              then (hp r)\<lparr>send := (send (hp r))\<lparr>buf := buf (send (hp r)) @ [data]\<rparr>\<rparr>
              else hp r)"
    using nx ch by (auto simp: fun_eq_iff)
  finally show ?case .
qed

text \<open>
  Claim C9. A broadcast on a channel with subscribers, all with open queues, whose
  payload encodes: the call returns; every subscriber with room in its queue has the
  publication frame appended at the end of its queue; every subscriber whose queue is
  full keeps its queue as it was; nothing else changes.
\<close>

theorem broadcast_per_subscriber:
  fixes st :: "'a hub_state_scheme"
  assumes "channels (hub st) (cm_Channel message) = Some cs"
    and "set clientList = cs" "distinct clientList"
    and "cm_Data message = [] \<or> validJSON (cm_Data message)"
    and "\<forall>r \<in> cs. \<not> is_closed (send (heap st r))"
    and "data = NewPublicationMessage (cm_Channel message) (cm_Data message) now"
  shows "broadcastToChannel validJSON now clientList st message =
     Inr (st\<lparr>heap := (\<lambda>r.
            if r \<in> cs \<and> length (buf (send (heap st r))) < cap (send (heap st r))
            then (heap st r)\<lparr>send := (send (heap st r))\<lparr>buf := buf (send (heap st r)) @ [data]\<rparr>\<rparr>
            else heap st r)\<rparr>)"
proof -
  have enc: "Encode validJSON (NewPublicationMessage (cm_Channel message) (cm_Data message) now)
      = Some data"
    using assms(4,6) by (auto simp: Encode_def NewPublicationMessage_def)
  have "send_each clientList data (heap st) =
     Inr (\<lambda>r. if r \<in> set clientList \<and> length (buf (send (heap st r))) < cap (send (heap st r))
            then (heap st r)\<lparr>send := (send (heap st r))\<lparr>buf := buf (send (heap st r)) @ [data]\<rparr>\<rparr>
            else heap st r)"
    using assms(2,3,5) by (intro send_each_open) auto
  then show ?thesis
    using assms(1,2) enc by (simp add: broadcastToChannel_def)
qed

theorem broadcast_per_subscriber_witness:
  "\<exists>st'. broadcastToChannel (\<lambda>_. True) 7 [0, 1] two_subscribers
            \<lparr>cm_Channel = ''user:111:margin'', cm_Data = ''{}''\<rparr> = Inr st' \<and>
         buf (send (heap st' 0)) = [NewPublicationMessage ''user:111:margin'' ''{}'' 7] \<and>
         buf (send (heap st' 1)) = [NewSubscribedMessage ''s1'' ''user:111:margin'' 1]"
proof -
  let ?m = "\<lparr>cm_Channel = ''user:111:margin'', cm_Data = ''{}''\<rparr>"
  have h1: "channels (hub two_subscribers) (cm_Channel ?m) = Some {0, 1}"
    and h2: "set [0, 1 :: nat] = {0, 1}" and h3: "distinct [0, 1 :: nat]"
    and h4: "cm_Data ?m = [] \<or> (\<lambda>_. True) (cm_Data ?m)"
    and h5: "\<forall>r \<in> {0, 1}. \<not> is_closed (send (heap two_subscribers r))"
    and h6: "NewPublicationMessage ''user:111:margin'' ''{}'' 7 =
             NewPublicationMessage (cm_Channel ?m) (cm_Data ?m) 7"
    by (simp_all add: two_subscribers_def NewClient_def DefaultClientConfig_def make_chan_def Let_def)
  from broadcast_per_subscriber [OF h1 h2 h3 h4 h5 h6]
  show ?thesis by (simp add: two_subscribers_def NewClient_def DefaultClientConfig_def make_chan_def Let_def)
qed

section \<open>The handler: rejected subscriptions\<close>

lemma SendMessage_error_reply:
  fixes st :: handler_state
  assumes "\<not> is_closed (send (heap st client))"
    and "length (buf (send (heap st client))) < cap (send (heap st client))"
  shows "SendMessage validJSON st client (NewErrorMessage rid code text now) =
     Inr (st\<lparr>heap := (heap st)(client := (heap st client)
            \<lparr>send := (send (heap st client))
               \<lparr>buf := buf (send (heap st client)) @ [NewErrorMessage rid code text now]\<rparr>\<rparr>)\<rparr>, None)"
  using assms
  by (simp add: SendMessage_def Encode_def NewErrorMessage_def Send_def chan_try_send_def Let_def)

text \<open>
  Claim C5, amended. A session with room in its open queue sends a subscribe command
  for a channel it is not subscribed to. If the channel name is empty, does not parse,
  or parses to a public identifier that differs from the session's (non-empty) own, the
  handler queues one error reply carrying the command's id and changes nothing else:
  the Hub, the tracker and the session's subscriptions stay as they were. The code of
  the reply is 4000 when the name is empty or the parser reports an unknown channel
  type (no \<open>user:\<close> prefix, or a suffix other than \<open>margin\<close> and \<open>position\<close>), and 4001
  otherwise.
\<close>

theorem subscribe_rejections:
  assumes open_q: "\<not> is_closed (send (heap st client))"
    and room: "length (buf (send (heap st client))) < cap (send (heap st client))"
    and fresh: "\<not> IsClientSubscribed st client (Channel msg)"
    and rejected: "Channel msg = [] \<or> (\<exists>err. ParseChannel (Channel msg) = Inl err) \<or>
       (\<exists>info. ParseChannel (Channel msg) = Inr info \<and> ajaibID (heap st client) \<noteq> [] \<and>
               ajaibID (heap st client) \<noteq> AjaibID info)"
  shows "\<exists>reply. handleSubscribe validJSON now st client msg =
            Inr (st\<lparr>heap := (heap st)(client := (heap st client)
                   \<lparr>send := (send (heap st client))
                      \<lparr>buf := buf (send (heap st client)) @ [reply]\<rparr>\<rparr>)\<rparr>, None) \<and>
          Type reply = TypeError \<and> ID reply = ID msg \<and> \<not> Success reply \<and>
          Code reply =
            (if Channel msg = [] \<or> ParseChannel (Channel msg) = Inl ErrUnknownChannelType
             then 4000 else 4001)"
proof -
  note send = SendMessage_error_reply [OF open_q room, of validJSON "ID msg" _ _ now]
  consider (empty) "Channel msg = []"
    | (unparsed) err where "Channel msg \<noteq> []" "ParseChannel (Channel msg) = Inl err"
    | (foreign) info where "Channel msg \<noteq> []" "ParseChannel (Channel msg) = Inr info"
        "ajaibID (heap st client) \<noteq> []" "ajaibID (heap st client) \<noteq> AjaibID info"
    using rejected by blast
  then show ?thesis
  proof cases
    case empty
    then have "handleSubscribe validJSON now st client msg =
        SendMessage validJSON st client (NewErrorMessage (ID msg) CodeBadRequest ''channel required'' now)"
      by (simp add: handleSubscribe_def Let_def)
    then show ?thesis using send empty
      by (intro exI [where x = "NewErrorMessage (ID msg) CodeBadRequest ''channel required'' now"])
         (simp add: NewErrorMessage_def CodeBadRequest_def TypeError_def)
  next
    case unparsed
    let ?code = "if err = ErrInvalidChannelFormat \<or> err = ErrInvalidCFXUserID
                 then CodeChannelNotFound else CodeBadRequest"
    from unparsed fresh have "handleSubscribe validJSON now st client msg =
        SendMessage validJSON st client (NewErrorMessage (ID msg) ?code (Error err) now)"
      by (simp add: handleSubscribe_def Let_def)
    then show ?thesis using send unparsed
      by (intro exI [where x = "NewErrorMessage (ID msg) ?code (Error err) now"], cases err)
         (simp_all add: NewErrorMessage_def CodeBadRequest_def CodeChannelNotFound_def TypeError_def)
  next
    case foreign
    with fresh have "handleSubscribe validJSON now st client msg =
        SendMessage validJSON st client
          (NewErrorMessage (ID msg) CodeChannelNotFound ''channel not found'' now)"
      by (simp add: handleSubscribe_def Let_def)
    then show ?thesis using send foreign
      by (intro exI [where x = "NewErrorMessage (ID msg) CodeChannelNotFound ''channel not found'' now"])
         (simp add: NewErrorMessage_def CodeChannelNotFound_def TypeError_def)
  qed
qed

text \<open>
  The channel name \<open>orders:111\<close> does not parse, and the reply has code 4000, not 4001.
\<close>

theorem subscribe_unknown_type_counterexample:
  "handleSubscribe (\<lambda>_. True) 7 connected 0 (subscribe_cmd ''s1'' ''orders:111'') =
     Inr (connected\<lparr>heap := (heap connected)(0 := (heap connected 0)
            \<lparr>send := (send (heap connected 0))
               \<lparr>buf := [NewErrorMessage ''s1'' 4000 ''unknown channel type'' 7]\<rparr>\<rparr>)\<rparr>, None)"
  by (simp add: handleSubscribe_def Let_def connected_def subscribe_cmd_def IsClientSubscribed_def
      NewClient_def DefaultClientConfig_def make_chan_def ParseChannel_def HasPrefix_def PrefixUser_def
      SendMessage_def Encode_def NewErrorMessage_def Send_def chan_try_send_def
      CodeBadRequest_def Error_def)

theorem subscribe_rejections_witness:
  "\<exists>reply. handleSubscribe (\<lambda>_. True) 7 connected 0 (subscribe_cmd ''s1'' ''user:222:margin'') =
      Inr (connected\<lparr>heap := (heap connected)(0 := (heap connected 0)
            \<lparr>send := (send (heap connected 0))\<lparr>buf := [reply]\<rparr>\<rparr>)\<rparr>, None) \<and>
      Type reply = TypeError \<and> ID reply = ''s1'' \<and> \<not> Success reply \<and> Code reply = 4001"
proof -
  have p: "ParseChannel ''user:222:margin'' =
      Inr \<lparr>Name = ''user:222:margin'', Prefix = ''user:'', UserID = [], AjaibID = ''222'',
           ChannelSub = ''margin''\<rparr>"
    by (simp add: ParseChannel_def HasPrefix_def TrimPrefix_def PrefixUser_def Let_def
        isValidAjaibID_def isDigit_def ValidUserChannels_def)
  have h1: "\<not> is_closed (send (heap connected 0))"
    and h2: "length (buf (send (heap connected 0))) < cap (send (heap connected 0))"
    and h3: "\<not> IsClientSubscribed connected 0 (Channel (subscribe_cmd ''s1'' ''user:222:margin''))"
    by (simp_all add: connected_def NewClient_def DefaultClientConfig_def make_chan_def IsClientSubscribed_def)
  have h4: "Channel (subscribe_cmd ''s1'' ''user:222:margin'') = [] \<or>
      (\<exists>err. ParseChannel (Channel (subscribe_cmd ''s1'' ''user:222:margin'')) = Inl err) \<or>
      (\<exists>info. ParseChannel (Channel (subscribe_cmd ''s1'' ''user:222:margin'')) = Inr info \<and>
          ajaibID (heap connected 0) \<noteq> [] \<and> ajaibID (heap connected 0) \<noteq> AjaibID info)"
    using p by (simp add: subscribe_cmd_def connected_def NewClient_def Let_def)
  from subscribe_rejections [OF h1 h2 h3 h4, of "\<lambda>_. True" 7]
  show ?thesis
    using p by (simp add: subscribe_cmd_def connected_def NewClient_def DefaultClientConfig_def make_chan_def)
qed

section \<open>The handler and the tracker\<close>

text \<open>The state \<open>both_subscribed\<close> is what two subscribe commands make of \<open>connected\<close>.\<close>

lemma both_subscribed_reachable:
  "\<exists>st1. handleSubscribe (\<lambda>_. True) 1 connected 0 (subscribe_cmd ''s1'' ''user:111:margin'')
            = Inr (st1, None) \<and>
         handleSubscribe (\<lambda>_. True) 2 st1 0 (subscribe_cmd ''s2'' ''user:111:position'')
            = Inr (both_subscribed, None)"
proof -
  have p1: "ParseChannel ''user:111:margin'' =
      Inr \<lparr>Name = ''user:111:margin'', Prefix = ''user:'', UserID = [], AjaibID = ''111'',
           ChannelSub = ''margin''\<rparr>"
    by (simp add: ParseChannel_def HasPrefix_def TrimPrefix_def PrefixUser_def Let_def
        isValidAjaibID_def isDigit_def ValidUserChannels_def)
  have p2: "ParseChannel ''user:111:position'' =
      Inr \<lparr>Name = ''user:111:position'', Prefix = ''user:'', UserID = [], AjaibID = ''111'',
           ChannelSub = ''position''\<rparr>"
    by (simp add: ParseChannel_def HasPrefix_def TrimPrefix_def PrefixUser_def Let_def
        isValidAjaibID_def isDigit_def ValidUserChannels_def)
  define st1 :: handler_state where "st1 =
     \<lparr>hub = \<lparr>clients = {0}, userConnections = [''111'' \<mapsto> 1],
             channels = [''user:111:margin'' \<mapsto> {0}], maxConnectionsPerUser = 5\<rparr>,
      heap = (\<lambda>_. NewClient None ''c1'' ''111'' ''C1'')
               (0 := (NewClient None ''c1'' ''111'' ''C1'')
                      \<lparr>send := \<lparr>buf = [NewSubscribedMessage ''s1'' ''user:111:margin'' 1],
                               cap = 256, is_closed = False\<rparr>,
                       subscriptions := {''user:111:margin''}\<rparr>),
      kafkaBroadcaster = Some \<lparr>activeUsers = [''C1'' \<mapsto> ''111'']\<rparr>\<rparr>"
  have s1: "handleSubscribe (\<lambda>_. True) 1 connected 0 (subscribe_cmd ''s1'' ''user:111:margin'')
            = Inr (st1, None)"
    using p1
    by (simp add: handleSubscribe_def Let_def connected_def subscribe_cmd_def st1_def
        IsClientSubscribed_def NewClient_def DefaultClientConfig_def make_chan_def SubscribeClient_def
        RegisterSubscription_def NewBroadcaster_def SendMessage_def Encode_def
        NewSubscribedMessage_def Send_def chan_try_send_def)
  have s2: "handleSubscribe (\<lambda>_. True) 2 st1 0 (subscribe_cmd ''s2'' ''user:111:position'')
            = Inr (both_subscribed, None)"
    using p2
    by (simp add: handleSubscribe_def Let_def both_subscribed_def subscribe_cmd_def st1_def
        IsClientSubscribed_def NewClient_def DefaultClientConfig_def make_chan_def SubscribeClient_def
        RegisterSubscription_def SendMessage_def Encode_def
        NewSubscribedMessage_def Send_def chan_try_send_def fun_upd_twist insert_commute)
  from s1 s2 show ?thesis by blast
qed

text \<open>
  Claim C2, as the code has it. The claim asks that the tracker keeps the entry of an
  internal identifier while a session of that user is still subscribed to a user
  channel. \<open>handleUnsubscribe\<close> deletes the entry on every successful unsubscribe of a
  session with an internal identifier, whatever else that session (or another one) is
  still subscribed to: afterwards the lookup gives the empty string, and the session's
  subscriptions are the old ones without the one channel.
\<close>

theorem unsubscribe_drops_mapping:
  assumes "kafkaBroadcaster st = Some b"
    and "cfxUserID (heap st client) \<noteq> []"
    and "Channel msg \<noteq> []"
    and "IsClientSubscribed st client (Channel msg)"
    and "\<not> is_closed (send (heap st client))"
  shows "\<exists>st' e. handleUnsubscribe validJSON now st client msg = Inr (st', e) \<and>
           kafkaBroadcaster st' = Some (UnregisterSubscription b (cfxUserID (heap st client))) \<and>
           getAjaibID (UnregisterSubscription b (cfxUserID (heap st client)))
             (cfxUserID (heap st client)) = [] \<and>
           subscriptions (heap st' client) = subscriptions (heap st client) - {Channel msg}"
  using assms
  by (auto simp: handleUnsubscribe_def Let_def UnsubscribeClient_def SendMessage_def Encode_def
      NewUnsubscribedMessage_def Send_def chan_try_send_def getAjaibID_def
      UnregisterSubscription_def split: option.splits)

theorem unsubscribe_drops_mapping_witness:
  "\<exists>st' e. handleUnsubscribe (\<lambda>_. True) 9 both_subscribed 0
              (unsubscribe_cmd ''u1'' ''user:111:margin'') = Inr (st', e) \<and>
           kafkaBroadcaster st' = Some \<lparr>activeUsers = Map.empty\<rparr> \<and>
           getAjaibID \<lparr>activeUsers = Map.empty\<rparr> ''C1'' = [] \<and>
           subscriptions (heap st' 0) = {''user:111:position''}"
proof -
  let ?msg = "unsubscribe_cmd ''u1'' ''user:111:margin''"
  have h1: "kafkaBroadcaster both_subscribed = Some \<lparr>activeUsers = [''C1'' \<mapsto> ''111'']\<rparr>"
    and h2: "cfxUserID (heap both_subscribed 0) \<noteq> []"
    and h3: "Channel ?msg \<noteq> []"
    and h4: "IsClientSubscribed both_subscribed 0 (Channel ?msg)"
    and h5: "\<not> is_closed (send (heap both_subscribed 0))"
    by (simp_all add: both_subscribed_def unsubscribe_cmd_def IsClientSubscribed_def
        NewClient_def Let_def)
  have sub: "subscriptions (heap both_subscribed 0) - {Channel ?msg} = {''user:111:position''}"
    by (auto simp: both_subscribed_def unsubscribe_cmd_def)
  have cfx: "cfxUserID (heap both_subscribed 0) = ''C1''"
    by (simp add: both_subscribed_def NewClient_def Let_def)
  from unsubscribe_drops_mapping [OF h1 h2 h3 h4 h5, of "\<lambda>_. True" 9]
  show ?thesis
    unfolding sub cfx by (simp add: UnregisterSubscription_def)
qed

section \<open>Start-up\<close>

text \<open>
  Claim C6, amended. Start-up does not look at the ping interval or the pong timeout.
  Whether \<open>main\<close> exits, panics in the Kafka library or runs the service is the same
  for every WebSocket section of the configuration, whatever the library does; so a
  configuration that starts with a ping interval below the pong timeout also starts
  with the two exchanged. The server that runs constructs every session with the
  configured ping interval and pong timeout, converted from milliseconds to
  nanoseconds, whatever their order.
\<close>

theorem startup_ignores_liveness_timers:
  "main_startup newReader (cfg\<lparr>WebSocketServer := w\<rparr>) =
     (case main_startup newReader cfg of
        Exit n \<Rightarrow> Exit n
      | Panicked \<Rightarrow> Panicked
      | Running wsServer \<Rightarrow> Running (NewServer w)) \<and>
   pingInterval (handleWebSocket_client (NewServer w) uuid ajaibID' cfxUserID') =
     wrap64 (PingIntervalMs w * Millisecond) \<and>
   pingTimeout (handleWebSocket_client (NewServer w) uuid ajaibID' cfxUserID') =
     wrap64 (PingTimeoutMs w * Millisecond)"
proof -
  have "initKafkaConsumer newReader (cfg\<lparr>WebSocketServer := w\<rparr>) = initKafkaConsumer newReader cfg"
    by (simp add: initKafkaConsumer_def)
  then have "main_startup newReader (cfg\<lparr>WebSocketServer := w\<rparr>) =
     (case main_startup newReader cfg of
        Exit n \<Rightarrow> Exit n
      | Panicked \<Rightarrow> Panicked
      | Running wsServer \<Rightarrow> Running (NewServer w))"
    by (simp add: main_startup_def initWebSocketServer_def split: consumer_result.splits)
  moreover have "pingInterval (handleWebSocket_client (NewServer w) uuid ajaibID' cfxUserID') =
     wrap64 (PingIntervalMs w * Millisecond)"
    and "pingTimeout (handleWebSocket_client (NewServer w) uuid ajaibID' cfxUserID') =
     wrap64 (PingTimeoutMs w * Millisecond)"
    by (simp_all add: handleWebSocket_client_def NewClient_def NewServer_def Let_def)
  ultimately show ?thesis by simp
qed

text \<open>
  The configuration with a ping interval of 30 s and a pong timeout of 2 s, with a
  library that creates the reader: the service starts, and its sessions get these two
  timers.
\<close>

theorem startup_slow_ping_counterexample:
  "main_startup reader_created slow_ping_config =
     Running (NewServer (WebSocketServer slow_ping_config)) \<and>
   PingIntervalMs (WebSocketServer slow_ping_config)
     \<ge> PingTimeoutMs (WebSocketServer slow_ping_config) \<and>
   pingInterval (handleWebSocket_client (NewServer (WebSocketServer slow_ping_config))
     ''c1'' ''111'' ''C1'') = 30 * Second \<and>
   pingTimeout (handleWebSocket_client (NewServer (WebSocketServer slow_ping_config))
     ''c1'' ''111'' ''C1'') = 2 * Second"
  by (simp add: main_startup_def initWebSocketServer_def initKafkaConsumer_def
      NewKafkaReaderConsumer_def reader_created_def handleWebSocket_client_def NewClient_def
      NewServer_def Let_def Millisecond_def Second_def slow_ping_config_def wrap64_def)

section \<open>The rate provider and the rate cache\<close>

lemma provider_positive: "GetUSDTToIDRRate x = Inr r \<Longrightarrow> 0 < r"
  by (auto simp: GetUSDTToIDRRate_def Let_def split: http_exchange.splits if_splits option.splits)

lemma provider_rejects_nonpositive:
  "Amount (Result resp) \<le> 0 \<Longrightarrow>
   GetUSDTToIDRRate (Response StatusOK (Some resp)) = Inl (ErrInvalidRate (Amount (Result resp)))"
  by (simp add: GetUSDTToIDRRate_def Let_def)

lemma GetCurrentRate_cases:
  assumes "GetCurrentRate cache provided clock = (res, cache')"
  shows "(res = Inr (rate cache) \<and> rate cache \<noteq> 0 \<and> cache' = cache) \<or>
         (\<exists>r. provided = Inr r \<and> res = Inr r \<and> cache' = set' cache r (clock 4)) \<or>
         (\<exists>e. provided = Inl e \<and> res = Inl (FetchFailed e) \<and> cache' = cache)"
  using assms
  by (auto simp: GetCurrentRate_def Let_def get_def isExpired_def
      split: if_splits sum.splits)

lemma GetCurrentRate_step:
  fixes cache :: "('f::{zero,linorder}) rateCache"
  assumes "GetCurrentRate cache (GetUSDTToIDRRate x) clock = (res, cache')"
    and "0 \<le> rate cache"
  shows "0 \<le> rate cache'"
    and "\<And>r. res = Inr r \<Longrightarrow> 0 < r \<and> rate cache' \<noteq> 0"
    and "rate cache \<noteq> 0 \<Longrightarrow> rate cache' \<noteq> 0"
    and "rate cache' \<noteq> 0 \<Longrightarrow> rate cache \<noteq> 0 \<or> (\<exists>r. res = Inr r)"
  using GetCurrentRate_cases [OF assms(1)] assms(2) provider_positive [of x]
  by (auto simp: set'_def)

lemma serve_invariant:
  fixes cache :: "('f::{zero,linorder}) rateCache"
  assumes "serve cache calls = (rs, cache')" "0 \<le> rate cache"
  shows "(\<forall>r. Inr r \<in> set rs \<longrightarrow> 0 < r) \<and> 0 \<le> rate cache' \<and>
         (rate cache' = 0 \<longleftrightarrow> rate cache = 0 \<and> (\<forall>r. Inr r \<notin> set rs))"
  using assms
proof (induction calls arbitrary: cache rs)
  case Nil
  then show ?case by simp
next
  case (Cons call calls)
  obtain x clock where call: "call = (x, clock)" by (cases call)
  obtain res c1 where g: "GetCurrentRate cache (GetUSDTToIDRRate x) clock = (res, c1)"
    by (cases "GetCurrentRate cache (GetUSDTToIDRRate x) clock")
  obtain rs1 where s: "serve c1 calls = (rs1, cache')" and rs: "rs = res # rs1"
    using Cons.prems(1) call g by (auto split: prod.splits)
  note st = GetCurrentRate_step [OF g Cons.prems(2)]
  note ih = Cons.IH [OF s st(1)]
  show ?case
    using ih st(2,3,4) rs by auto
qed

text \<open>
  Claim C10. The HTTP provider answers every fetched amount that is not positive with an
  error. Starting from the empty cache and serving any sequence of calls: every rate
  returned without an error is positive; the cached rate is zero or positive; and it is
  zero exactly when no call has returned a rate, so zero stands for the empty cache
  only.
\<close>

theorem stored_rates_positive:
  fixes ttl' :: int and calls :: "(('f::{zero,linorder}) http_exchange \<times> (nat \<Rightarrow> int)) list"
  assumes "serve (newRateCache ttl') calls = (rs, cache)"
  shows "(\<forall>status (resp :: 'f baseResponse). Amount (Result resp) \<le> 0 \<longrightarrow>
            (\<exists>e. GetUSDTToIDRRate (Response status (Some resp)) = Inl e)) \<and>
         (\<forall>r. Inr r \<in> set rs \<longrightarrow> 0 < r) \<and>
         (rate cache = 0 \<or> 0 < rate cache) \<and>
         (rate cache = 0 \<longleftrightarrow> (\<forall>r. Inr r \<notin> set rs))"
proof -
  have "0 \<le> rate (newRateCache ttl' :: 'f rateCache)" "rate (newRateCache ttl' :: 'f rateCache) = 0"
    by (simp_all add: newRateCache_def)
  from serve_invariant [OF assms this(1)] this(2)
  have "(\<forall>r. Inr r \<in> set rs \<longrightarrow> 0 < r) \<and> (rate cache = 0 \<or> 0 < rate cache) \<and>
        (rate cache = 0 \<longleftrightarrow> (\<forall>r. Inr r \<notin> set rs))"
    by auto
  moreover have "\<forall>status (resp :: 'f baseResponse). Amount (Result resp) \<le> 0 \<longrightarrow>
            (\<exists>e. GetUSDTToIDRRate (Response status (Some resp)) = Inl e)"
    by (simp add: GetUSDTToIDRRate_def Let_def)
  ultimately show ?thesis by blast
qed

theorem stored_rates_positive_witness:
  "serve (newRateCache 5)
     [(rate_response 0, \<lambda>_. 1), (rate_response 15000, \<lambda>_. 2), (rate_response (- 1), \<lambda>_. 9)]
     = ([Inl (FetchFailed (ErrInvalidRate 0)), Inr 15000, Inl (FetchFailed (ErrInvalidRate (- 1)))],
        \<lparr>rate = 15000, timestamp = 2, ttl = 5\<rparr>) \<and>
   (0::real) < 15000 \<and>
   (\<exists>e. GetUSDTToIDRRate (rate_response (- 1)) = Inl e)"
proof -
  have run: "serve (newRateCache 5)
     [(rate_response 0, \<lambda>_. 1), (rate_response 15000, \<lambda>_. 2), (rate_response (- 1), \<lambda>_. 9)]
     = ([Inl (FetchFailed (ErrInvalidRate 0)), Inr 15000, Inl (FetchFailed (ErrInvalidRate (- 1)))],
        \<lparr>rate = 15000, timestamp = 2, ttl = 5\<rparr>)"
    by (simp add: rate_response_def newRateCache_def GetCurrentRate_def GetUSDTToIDRRate_def
        StatusOK_def isExpired_def get_def set'_def Let_def)
  note all = stored_rates_positive [OF run]
  have pos: "(0::real) < 15000"
    by (rule all [THEN conjunct2, THEN conjunct1, rule_format]) simp
  have neg: "Amount (Result \<lparr>Result = \<lparr>BaseCurrency = ''USDT'', QuoteCurrency = ''IDR'',
      Amount = (- 1 :: real)\<rparr>\<rparr>) \<le> 0" by simp
  have "\<exists>e. GetUSDTToIDRRate (rate_response (- 1)) = Inl e"
    unfolding rate_response_def by (rule all [THEN conjunct1, rule_format, OF neg])
  with run pos show ?thesis by blast
qed

section \<open>The transformer\<close>

text \<open>
  Claim C8, amended. For a payload that decodes: if its asset is not \<open>IDR\<close> the
  transformer returns the input bytes as they are. If its asset is \<open>IDR\<close> the outcome
  follows the currency service: when the service has no rate the transformer returns an
  error and no payload; when it answers with a rate the transformer encodes the payload
  in which exactly the eight fields total_position_value, margin_balance, order_margin,
  maintenance_margin, unrealized_pnl, available_margin, wallet_balance and
  withdrawable_margin are multiplied by the rate and timestamp, cfx_user_id, asset,
  effective_leverage and margin_ratio are unchanged, and returns that encoding, or an
  error when the encoder rejects this payload.
\<close>

theorem TransformUserMargin_fields:
  assumes "unmarshal data = Some margin"
  shows "TransformUserMargin unmarshal marshal fmul getRate data cfxUserID' =
     (if Asset margin \<noteq> ''IDR'' then Inr data
      else
        (case getRate of
           Inl err \<Rightarrow> Inl (ErrExchangeRate err)
         | Inr r \<Rightarrow>
             (case marshal
                 \<lparr>um_Timestamp = um_Timestamp margin,
                  CFXUserID = CFXUserID margin,
                  Asset = Asset margin,
                  TotalPositionValue = fmul (TotalPositionValue margin) r,
                  MarginBalance = fmul (MarginBalance margin) r,
                  OrderMargin = fmul (OrderMargin margin) r,
                  EffectiveLeverage = EffectiveLeverage margin,
                  MaintenanceMargin = fmul (MaintenanceMargin margin) r,
                  UnrealizedPnl = fmul (UnrealizedPnl margin) r,
                  AvailableMargin = fmul (AvailableMargin margin) r,
                  WalletBalance = fmul (WalletBalance margin) r,
                  MarginRatio = MarginRatio margin,
                  WithdrawableMargin = fmul (WithdrawableMargin margin) r\<rparr> of
                None \<Rightarrow> Inl ErrMarshal
              | Some transformedData \<Rightarrow> Inr transformedData)))"
proof -
  obtain ts cu asset tpv mb om el mm up am wb mr wm where
    m: "margin = \<lparr>um_Timestamp = ts, CFXUserID = cu, Asset = asset, TotalPositionValue = tpv,
      MarginBalance = mb, OrderMargin = om, EffectiveLeverage = el, MaintenanceMargin = mm,
      UnrealizedPnl = up, AvailableMargin = am, WalletBalance = wb, MarginRatio = mr,
      WithdrawableMargin = wm\<rparr>"
    by (cases margin) auto
  show ?thesis
    using assms unfolding m
    by (simp add: TransformUserMargin_def Let_def split: sum.splits)
qed

text \<open>
  A decodable payload with asset \<open>IDR\<close>, an empty rate cache and a rate endpoint that
  cannot be reached: the currency service returns an error, and the transformer returns
  an error instead of the payload.
\<close>

theorem TransformUserMargin_no_rate_counterexample:
  "toy_unmarshal ''in'' = Some idr_margin \<and> Asset idr_margin = ''IDR'' \<and>
   TransformUserMargin toy_unmarshal toy_marshal (*)
     (fst (GetCurrentRate (newRateCache 5) (GetUSDTToIDRRate TransportFailed) (\<lambda>_. 1)))
     ''in'' ''C1'' = Inl (ErrExchangeRate (FetchFailed ErrFetchRate))"
  by (simp add: toy_unmarshal_def idr_margin_def TransformUserMargin_def GetCurrentRate_def
      newRateCache_def isExpired_def GetUSDTToIDRRate_def Let_def)

theorem TransformUserMargin_fields_witness:
  "TransformUserMargin toy_unmarshal toy_marshal (*) (Inr 15000 :: unit + real) ''in'' ''C1''
     = Inr ''converted''"
proof -
  have u: "toy_unmarshal ''in'' = Some idr_margin" by (simp add: toy_unmarshal_def)
  note TransformUserMargin_fields [where unmarshal = toy_unmarshal and data = "''in''"
      and margin = idr_margin and marshal = toy_marshal and fmul = "(*)"
      and getRate = "Inr 15000 :: unit + real" and cfxUserID' = "''C1''"]
  from this [OF u]
  show ?thesis by (simp add: idr_margin_def idr_margin_converted_def toy_marshal_def)
qed

end
